theory Spec2Isabelle
  imports Main
begin

section \<open>Values of the run time\<close>

text \<open>
  The client of \<^verbatim>\<open>index.ts\<close> talks to two HTTP endpoints, reads the clock, sleeps and
  calls back into its host. The embedding makes each of these explicit.

  A JavaScript number is an IEEE 754 double: \<open>Num m e\<close> is the finite double \<open>m * 2^e\<close>,
  kept in the form where \<open>m\<close> is odd (zero is \<open>Num 0 0\<close>; the sign of zero is not kept),
  next to the two infinities and \<open>NaN\<close>. A JSON number is parsed to a double, finite or
  infinite; a field that is \<^verbatim>\<open>undefined\<close> at run time becomes \<open>NaN\<close> in arithmetic.
\<close>

datatype number = Num int int | PInf | NInf | NaN

text \<open>The form with an odd mantissa, and the number of bits of a natural number.\<close>

function normal :: "int \<Rightarrow> int \<Rightarrow> number" where
  "normal m e = (if m = 0 then Num 0 0 else if even m then normal (m div 2) (e + 1) else Num m e)"
  by pat_completeness auto
termination
  by (relation "measure (\<lambda>(m, e). nat \<bar>m\<bar>)") auto

declare normal.simps [simp del]

fun bitlen :: "nat \<Rightarrow> nat" where
  "bitlen n = (if n = 0 then 0 else Suc (bitlen (n div 2)))"

declare bitlen.simps [simp del]

text \<open>
  Rounding to the nearest double, ties to the even mantissa: \<open>round53 m e\<close> is the double
  that IEEE 754 arithmetic returns when the exact result is \<open>m * 2^e\<close>. The mantissa keeps
  53 bits, fewer below \<open>2^-1022\<close> where the spacing stays \<open>2^-1074\<close>; a result of
  magnitude \<open>2^1024\<close> or more is infinite.
\<close>

definition finish :: "int \<Rightarrow> int \<Rightarrow> number" where
  "finish m e =
     (if 1024 < int (bitlen (nat \<bar>m\<bar>)) + e then (if 0 < m then PInf else NInf) else normal m e)"

definition round53 :: "int \<Rightarrow> int \<Rightarrow> number" where
  "round53 m e =
     (if m = 0 then Num 0 0
      else let E = max (int (bitlen (nat \<bar>m\<bar>)) - 1 + e) (- 1022) - 52
           in if E \<le> e then finish m e
              else let d = 2 ^ nat (E - e); f = m div d; r = m mod d
                   in finish (if 2 * r < d then f else if d < 2 * r then f + 1
                              else if even f then f else f + 1) E)"

text \<open>The double of an integer literal or of an integer time value.\<close>

definition double_of_int :: "int \<Rightarrow> number" where
  "double_of_int k = round53 k 0"

text \<open>\<^verbatim>\<open>x * y\<close> and \<^verbatim>\<open>x + y\<close>: the exact result, rounded.\<close>

fun num_mul :: "number \<Rightarrow> number \<Rightarrow> number" where
  "num_mul (Num a e) (Num b f) = round53 (a * b) (e + f)"
| "num_mul NaN y = NaN"
| "num_mul x NaN = NaN"
| "num_mul (Num a e) PInf = (if a = 0 then NaN else if 0 < a then PInf else NInf)"
| "num_mul (Num a e) NInf = (if a = 0 then NaN else if 0 < a then NInf else PInf)"
| "num_mul PInf (Num b f) = (if b = 0 then NaN else if 0 < b then PInf else NInf)"
| "num_mul NInf (Num b f) = (if b = 0 then NaN else if 0 < b then NInf else PInf)"
| "num_mul PInf PInf = PInf"
| "num_mul PInf NInf = NInf"
| "num_mul NInf PInf = NInf"
| "num_mul NInf NInf = PInf"

fun num_add :: "number \<Rightarrow> number \<Rightarrow> number" where
  "num_add (Num a e) (Num b f) =
     round53 (a * 2 ^ nat (e - min e f) + b * 2 ^ nat (f - min e f)) (min e f)"
| "num_add NaN y = NaN"
| "num_add x NaN = NaN"
| "num_add PInf NInf = NaN"
| "num_add NInf PInf = NaN"
| "num_add PInf y = PInf"
| "num_add NInf y = NInf"
| "num_add x PInf = PInf"
| "num_add x NInf = NInf"

text \<open>\<^verbatim>\<open>x < y\<close> and \<^verbatim>\<open>x <= y\<close>: false as soon as one side is \<open>NaN\<close>.\<close>

fun num_less :: "number \<Rightarrow> number \<Rightarrow> bool" where
  "num_less (Num a e) (Num b f) =
     (a * 2 ^ nat (e - min e f) < b * 2 ^ nat (f - min e f))"
| "num_less NaN y = False"
| "num_less x NaN = False"
| "num_less PInf y = False"
| "num_less x NInf = False"
| "num_less x PInf = True"
| "num_less NInf y = True"

fun num_le :: "number \<Rightarrow> number \<Rightarrow> bool" where
  "num_le (Num a e) (Num b f) =
     (a * 2 ^ nat (e - min e f) \<le> b * 2 ^ nat (f - min e f))"
| "num_le NaN y = False"
| "num_le x NaN = False"
| "num_le NInf y = True"
| "num_le x PInf = True"
| "num_le PInf y = False"
| "num_le x NInf = False"

text \<open>
  The integer that a double stands for, when its exponent is not negative; for doubles in
  the odd-mantissa form these are exactly the integers.
\<close>

fun int_value :: "number \<Rightarrow> int option" where
  "int_value (Num m e) = (if 0 \<le> e then Some (m * 2 ^ nat e) else None)"
| "int_value PInf = None"
| "int_value NInf = None"
| "int_value NaN = None"

text \<open>\<^verbatim>\<open>ToNumber\<close> of a numeric field that may be \<^verbatim>\<open>undefined\<close>.\<close>

fun to_number :: "number option \<Rightarrow> number" where
  "to_number None = NaN"
| "to_number (Some x) = x"

text \<open>
  What the code can catch: an \<^verbatim>\<open>Error\<close> it has thrown itself, with its message; the
  \<^verbatim>\<open>TypeError\<close> of a \<^verbatim>\<open>fetch\<close> that rejects; the \<^verbatim>\<open>SyntaxError\<close> of a
  \<^verbatim>\<open>response.json()\<close> whose body is not JSON. The two errors of the run time carry
  messages of the engine's own, none of which the code compares against.
\<close>

datatype exn = Error string | FetchTypeError | JsonSyntaxError

datatype 'a outcome = Return 'a | Throw exn

text \<open>Truthiness of an optional string and of an optional number (\<^verbatim>\<open>!x\<close>, \<^verbatim>\<open>x || d\<close>).\<close>

fun truthy_str :: "string option \<Rightarrow> bool" where
  "truthy_str None = False"
| "truthy_str (Some s) = (s \<noteq> [])"

fun truthy_num :: "int option \<Rightarrow> bool" where
  "truthy_num None = False"
| "truthy_num (Some n) = (n \<noteq> 0)"

definition str_or :: "string option \<Rightarrow> string \<Rightarrow> string" where
  "str_or x d = (if truthy_str x then the x else d)"

definition num_or :: "int option \<Rightarrow> int \<Rightarrow> int" where
  "num_or x d = (if truthy_num x then the x else d)"

text \<open>Decimal rendering of a status code inside a template literal.\<close>

definition digit_char :: "nat \<Rightarrow> char" where
  "digit_char d = ''0123456789'' ! d"

fun show_nat :: "nat \<Rightarrow> string" where
  "show_nat n = (if n < 10 then [digit_char n] else show_nat (n div 10) @ [digit_char (n mod 10)])"

declare show_nat.simps [simp del]

section \<open>HTTP\<close>

text \<open>
  A request: where it goes and the form fields of its body. The headers (the content type
  and the client headers of \<^verbatim>\<open>getCommonHeaders\<close>) are the same in every request of a
  process and are left out.
\<close>

record request =
  url :: string
  http_method :: string
  body :: "(string \<times> string) list"

text \<open>
  A response, as far as the code reads it: the status, what \<^verbatim>\<open>response.text()\<close> resolves
  to and what \<^verbatim>\<open>response.json()\<close> resolves to (\<open>None\<close> when the promise rejects). The
  JSON body has the shape the source casts it to; every field may be absent at run time.
\<close>

record 'j response =
  status :: nat
  body_text :: "string option"
  body_json :: "'j option"

definition ok :: "'j response \<Rightarrow> bool" where
  "ok r = (200 \<le> status r \<and> status r \<le> 299)"

text \<open>\<^verbatim>\<open>await response.text().catch(() => "")\<close>\<close>

definition text_or_empty :: "'j response \<Rightarrow> string" where
  "text_or_empty r = (case body_text r of None \<Rightarrow> [] | Some t \<Rightarrow> t)"

text \<open>A \<^verbatim>\<open>fetch\<close> rejects or resolves, some milliseconds after it was issued.\<close>

datatype 'j fetch_result = Rejected nat | Resolved nat "'j response"

fun latency :: "'j fetch_result \<Rightarrow> nat" where
  "latency (Rejected ms) = ms"
| "latency (Resolved ms r) = ms"

text \<open>
  The body of a device authorization. The server reports \<^verbatim>\<open>expires_in\<close> and \<^verbatim>\<open>interval\<close>
  in seconds; the embedding takes them as whole numbers, of any size and sign. The
  lifetime of a token, which goes into the arithmetic of \<^verbatim>\<open>expires\<close>, is any number.
\<close>

record device_authorization_json =
  j_user_code :: "string option"
  j_device_code :: "string option"
  j_verification_uri :: "string option"
  j_verification_uri_complete :: "string option"
  j_expires_in :: "int option"
  j_interval :: "int option"

text \<open>
  The token endpoint answers with the fields of \<^verbatim>\<open>TokenResponse\<close> on success and with
  \<^verbatim>\<open>error\<close>, \<^verbatim>\<open>error_description\<close> on a 400; one record holds every field the code reads.
\<close>

record token_json =
  j_access_token :: "string option"
  j_refresh_token :: "string option"
  j_token_expires_in :: "number option"
  j_scope :: "string option"
  j_token_type :: "string option"
  j_error :: "string option"
  j_error_description :: "string option"

text \<open>
  The authorization server: what each endpoint answers to the request it receives, given
  the number of requests the client has issued before.
\<close>

record server =
  device_authorization_endpoint :: "nat \<Rightarrow> request \<Rightarrow> device_authorization_json fetch_result"
  token_endpoint :: "nat \<Rightarrow> request \<Rightarrow> token_json fetch_result"

section \<open>The world the client runs in\<close>

text \<open>
  What the client does, in the order it does it: an exchange with an endpoint (the request
  and what the \<^verbatim>\<open>fetch\<close> came back with), a call of one of the host's callbacks, a timer.
  The world is the clock, the number of requests issued so far and the log of these events.
\<close>

datatype event =
    DeviceAuthorizationExchange request "device_authorization_json fetch_result"
  | TokenExchange request "token_json fetch_result"
  | OnAuth string string
  | OnProgress string
  | SetTimeout int

record world =
  now :: int
  requests :: nat
  log :: "event list"

text \<open>
  The host's callbacks. \<^verbatim>\<open>onAuth\<close> is always there; \<^verbatim>\<open>onProgress\<close> and \<^verbatim>\<open>signal\<close> are
  optional. The signal is the value of \<^verbatim>\<open>signal.aborted\<close> at the time it is read. A
  callback that is called is logged and returns.
\<close>

record OAuthLoginCallbacks =
  onProgress :: bool
  signal :: "(int \<Rightarrow> bool) option"

definition emit :: "event \<Rightarrow> world \<Rightarrow> world" where
  "emit e w = w\<lparr>log := log w @ [e]\<rparr>"

text \<open>\<^verbatim>\<open>if (callbacks.onProgress) callbacks.onProgress(msg)\<close>\<close>

definition progress :: "OAuthLoginCallbacks \<Rightarrow> string \<Rightarrow> world \<Rightarrow> world" where
  "progress callbacks msg w = (if onProgress callbacks then emit (OnProgress msg) w else w)"

text \<open>\<^verbatim>\<open>callbacks.signal?.aborted\<close>\<close>

definition signalled :: "OAuthLoginCallbacks \<Rightarrow> int \<Rightarrow> bool" where
  "signalled callbacks t = (case signal callbacks of None \<Rightarrow> False | Some s \<Rightarrow> s t)"

definition aborted :: "OAuthLoginCallbacks \<Rightarrow> world \<Rightarrow> bool" where
  "aborted callbacks w = signalled callbacks (now w)"

text \<open>
  \<^verbatim>\<open>await new Promise((resolve) => setTimeout(resolve, ms))\<close>. Node runs a timer whose
  delay is below 1 or above \<open>2^31 - 1\<close> after 1 millisecond. The clock of the model
  moves by the delay of each timer and by the latency of each \<^verbatim>\<open>fetch\<close>, and by nothing
  else.
\<close>

definition timer_delay :: "int \<Rightarrow> int" where
  "timer_delay ms = (if ms < 1 \<or> 2147483647 < ms then 1 else ms)"

definition sleep :: "int \<Rightarrow> world \<Rightarrow> world" where
  "sleep ms w = (emit (SetTimeout ms) w)\<lparr>now := now w + timer_delay ms\<rparr>"

definition after_fetch :: "event \<Rightarrow> nat \<Rightarrow> world \<Rightarrow> world" where
  "after_fetch e ms w = (emit e w)\<lparr>now := now w + int ms, requests := Suc (requests w)\<rparr>"

section \<open>Constants\<close>

definition CLIENT_ID :: string where
  "CLIENT_ID = ''17e5f671-d194-4dfb-9706-5516cb48c098''"

definition OAUTH_HOST :: string where
  "OAUTH_HOST = ''https://auth.kimi.com''"

section \<open>OAuth implementation\<close>

record DeviceAuthorization =
  user_code :: string
  device_code :: string
  verification_uri :: string
  verification_uri_complete :: string
  expires_in :: int
  interval :: int

record TokenResponse =
  access_token :: string
  refresh_token :: string
  token_expires_in :: "number option"
  scope :: "string option"
  token_type :: "string option"

text \<open>The object \<^verbatim>\<open>data as TokenResponse\<close>, once both tokens are known to be truthy.\<close>

definition as_TokenResponse :: "token_json \<Rightarrow> TokenResponse" where
  "as_TokenResponse data =
     \<lparr>access_token = the (j_access_token data),
      refresh_token = the (j_refresh_token data),
      token_expires_in = j_token_expires_in data,
      scope = j_scope data,
      token_type = j_token_type data\<rparr>"

definition device_authorization_request :: request where
  "device_authorization_request =
     \<lparr>url = OAUTH_HOST @ ''/api/oauth/device_authorization'',
      http_method = ''POST'',
      body = [(''client_id'', CLIENT_ID)]\<rparr>"

text \<open>Lines 97 to 122: what \<^verbatim>\<open>requestDeviceAuthorization\<close> makes of the response.\<close>

definition read_device_authorization ::
  "device_authorization_json fetch_result \<Rightarrow> DeviceAuthorization outcome" where
  "read_device_authorization res =
     (case res of
        Rejected ms \<Rightarrow> Throw FetchTypeError
      | Resolved ms response \<Rightarrow>
          if \<not> ok response then
            Throw (Error (''Device authorization failed: '' @ show_nat (status response)
                          @ '' '' @ text_or_empty response))
          else
            (case body_json response of
               None \<Rightarrow> Throw JsonSyntaxError
             | Some data \<Rightarrow>
                 if \<not> truthy_str (j_user_code data) \<or> \<not> truthy_str (j_device_code data)
                    \<or> \<not> truthy_str (j_verification_uri_complete data)
                 then Throw (Error ''Invalid device authorization response'')
                 else Return
                   \<lparr>user_code = the (j_user_code data),
                    device_code = the (j_device_code data),
                    verification_uri = str_or (j_verification_uri data) [],
                    verification_uri_complete = the (j_verification_uri_complete data),
                    expires_in = num_or (j_expires_in data) 1800,
                    interval = num_or (j_interval data) 5\<rparr>))"

definition requestDeviceAuthorization :: "server \<Rightarrow> world \<Rightarrow> DeviceAuthorization outcome \<times> world" where
  "requestDeviceAuthorization srv w =
     (let res = device_authorization_endpoint srv (requests w) device_authorization_request
      in (read_device_authorization res,
          after_fetch (DeviceAuthorizationExchange device_authorization_request res) (latency res) w))"

definition device_token_request :: "DeviceAuthorization \<Rightarrow> request" where
  "device_token_request auth =
     \<lparr>url = OAUTH_HOST @ ''/api/oauth/token'',
      http_method = ''POST'',
      body = [(''client_id'', CLIENT_ID),
              (''device_code'', device_code auth),
              (''grant_type'', ''urn:ietf:params:oauth:grant-type:device_code'')]\<rparr>"

text \<open>Lines 139 to 159: what \<^verbatim>\<open>requestDeviceToken\<close> makes of the response.\<close>

definition read_device_token :: "token_json fetch_result \<Rightarrow> TokenResponse option outcome" where
  "read_device_token res =
     (case res of
        Rejected ms \<Rightarrow> Throw FetchTypeError
      | Resolved ms response \<Rightarrow>
          if status response = 200 then
            (case body_json response of
               None \<Rightarrow> Throw JsonSyntaxError
             | Some data \<Rightarrow>
                 if truthy_str (j_access_token data) \<and> truthy_str (j_refresh_token data)
                 then Return (Some (as_TokenResponse data))
                 else Throw (Error ''Token response missing required fields''))
          else if status response = 400 then
            (case body_json response of
               None \<Rightarrow> Throw JsonSyntaxError
             | Some data \<Rightarrow>
                 if j_error data = Some ''authorization_pending'' then Return None
                 else if j_error data = Some ''expired_token'' then Throw (Error ''expired_token'')
                 else Throw (Error (''Token request failed: ''
                        @ (if truthy_str (j_error_description data) then the (j_error_description data)
                           else if truthy_str (j_error data) then the (j_error data)
                           else ''unknown''))))
          else
            Throw (Error (''Token request failed: '' @ show_nat (status response)
                          @ '' '' @ text_or_empty response)))"

definition requestDeviceToken ::
  "server \<Rightarrow> DeviceAuthorization \<Rightarrow> world \<Rightarrow> TokenResponse option outcome \<times> world" where
  "requestDeviceToken srv auth w =
     (let res = token_endpoint srv (requests w) (device_token_request auth)
      in (read_device_token res,
          after_fetch (TokenExchange (device_token_request auth) res) (latency res) w))"

definition refresh_token_request :: "string \<Rightarrow> request" where
  "refresh_token_request refreshToken =
     \<lparr>url = OAUTH_HOST @ ''/api/oauth/token'',
      http_method = ''POST'',
      body = [(''client_id'', CLIENT_ID),
              (''grant_type'', ''refresh_token''),
              (''refresh_token'', refreshToken)]\<rparr>"

text \<open>Lines 176 to 189: what \<^verbatim>\<open>refreshAccessToken\<close> makes of the response.\<close>

definition read_refreshed_token :: "token_json fetch_result \<Rightarrow> TokenResponse outcome" where
  "read_refreshed_token res =
     (case res of
        Rejected ms \<Rightarrow> Throw FetchTypeError
      | Resolved ms response \<Rightarrow>
          if \<not> ok response then
            (if status response = 401 \<or> status response = 403
             then Throw (Error (''Token refresh unauthorized: '' @ text_or_empty response))
             else Throw (Error (''Token refresh failed: '' @ show_nat (status response)
                                @ '' '' @ text_or_empty response)))
          else
            (case body_json response of
               None \<Rightarrow> Throw JsonSyntaxError
             | Some data \<Rightarrow>
                 if \<not> truthy_str (j_access_token data) \<or> \<not> truthy_str (j_refresh_token data)
                 then Throw (Error ''Token refresh response missing required fields'')
                 else Return (as_TokenResponse data)))"

definition refreshAccessToken :: "server \<Rightarrow> string \<Rightarrow> world \<Rightarrow> TokenResponse outcome \<times> world" where
  "refreshAccessToken srv refreshToken w =
     (let res = token_endpoint srv (requests w) (refresh_token_request refreshToken)
      in (read_refreshed_token res,
          after_fetch (TokenExchange (refresh_token_request refreshToken) res) (latency res) w))"

section \<open>OAuth login and refresh for the extension registration\<close>

record OAuthCredentials =
  access :: string
  refresh :: string
  expires :: number

text \<open>
  The object literal of lines 243 to 247 and 256 to 260:
  \<^verbatim>\<open>expires: Date.now() + token.expires_in * 1000\<close>.
\<close>

definition credentials_of :: "TokenResponse \<Rightarrow> world \<Rightarrow> OAuthCredentials" where
  "credentials_of token w =
     \<lparr>access = access_token token,
      refresh = refresh_token token,
      expires = num_add (double_of_int (now w))
                  (num_mul (to_number (token_expires_in token)) (double_of_int 1000))\<rparr>"

text \<open>\<^verbatim>\<open>error instanceof Error && error.message === "expired_token"\<close>\<close>

fun is_expired_token :: "exn \<Rightarrow> bool" where
  "is_expired_token (Error msg) = (msg = ''expired_token'')"
| "is_expired_token _ = False"

text \<open>Lines 227 to 232: the waiting notice, given once per device code.\<close>

definition note_waiting :: "OAuthLoginCallbacks \<Rightarrow> bool \<Rightarrow> world \<Rightarrow> world" where
  "note_waiting callbacks printedWaiting w =
     (if \<not> printedWaiting then progress callbacks ''Waiting for authorization...'' w else w)"

text \<open>
  The inner loop of \<^verbatim>\<open>loginKimiCode\<close>, lines 212 to 240, with the variables it reads and
  writes as arguments. It ends with \<^verbatim>\<open>token\<close> set (\<open>Return (Some token)\<close>), with
  \<^verbatim>\<open>token\<close> still \<^verbatim>\<open>null\<close> (\<open>Return None\<close>: the device code expired or the deadline
  passed), or by an exception. \<open>interval_ms\<close> is the local \<^verbatim>\<open>interval\<close>.
\<close>

function poll_loop ::
  "OAuthLoginCallbacks \<Rightarrow> server \<Rightarrow> DeviceAuthorization \<Rightarrow> int \<Rightarrow> int \<Rightarrow> bool \<Rightarrow> world
     \<Rightarrow> TokenResponse option outcome \<times> world" where
  "poll_loop callbacks srv auth interval_ms expiresAt printedWaiting w =
     (if now w < expiresAt then
        (case requestDeviceToken srv auth w of
           (Return (Some token), w1) \<Rightarrow> (Return (Some token), w1)
         | (Throw error, w1) \<Rightarrow>
             if is_expired_token error
             then (Return None, progress callbacks ''Device code expired, restarting...'' w1)
             else (Throw error, w1)
         | (Return None, w1) \<Rightarrow>
             (let w2 = note_waiting callbacks printedWaiting w1
              in if aborted callbacks w2 then (Throw (Error ''Authorization aborted''), w2)
                 else poll_loop callbacks srv auth interval_ms expiresAt True (sleep interval_ms w2)))
      else (Return None, w))"
  by pat_completeness auto
termination
proof (relation "measure (\<lambda>(callbacks, srv, auth, interval_ms, expiresAt, printedWaiting, w).
                    nat (expiresAt - now w))", goal_cases)
  case 1
  show ?case by simp
next
  case (2 callbacks srv auth interval_ms expiresAt printedWaiting w x w1 z w2)
  have "now w \<le> now w1"
    using 2(2) [symmetric] by (auto simp: requestDeviceToken_def Let_def after_fetch_def emit_def)
  moreover have "now w2 = now w1"
    using 2(5) by (simp add: note_waiting_def progress_def emit_def)
  moreover have "now w2 < now (sleep interval_ms w2)"
    by (simp add: sleep_def emit_def timer_delay_def)
  ultimately show ?case
    using 2(1) by simp
qed

declare poll_loop.simps [simp del]

text \<open>Lines 201 to 204: \<^verbatim>\<open>callbacks.onAuth({url, instructions})\<close>.\<close>

definition present_authorization :: "DeviceAuthorization \<Rightarrow> world \<Rightarrow> world" where
  "present_authorization auth w =
     emit (OnAuth (verification_uri_complete auth)
             (''Please visit the URL to authorize. Your code: '' @ user_code auth)) w"

text \<open>
  \<^verbatim>\<open>loginKimiCode\<close>. The outer \<^verbatim>\<open>while (true)\<close> may run for ever; the first argument
  bounds the number of device authorizations, and \<open>None\<close> says that the loop was still
  running when that many had been used up.
\<close>

fun loginKimiCode ::
  "nat \<Rightarrow> OAuthLoginCallbacks \<Rightarrow> server \<Rightarrow> world \<Rightarrow> OAuthCredentials outcome option \<times> world" where
  "loginKimiCode 0 callbacks srv w = (None, w)"
| "loginKimiCode (Suc fuel) callbacks srv w =
     (case requestDeviceAuthorization srv w of
        (Throw error, w1) \<Rightarrow> (Some (Throw error), w1)
      | (Return auth, w1) \<Rightarrow>
          (let w2 = present_authorization auth w1;
               interval_ms = max (interval auth) 1 * 1000;
               expiresAt = now w2 + expires_in auth * 1000
           in case poll_loop callbacks srv auth interval_ms expiresAt False w2 of
                (Throw error, w3) \<Rightarrow> (Some (Throw error), w3)
              | (Return (Some token), w3) \<Rightarrow> (Some (Return (credentials_of token w3)), w3)
              | (Return None, w3) \<Rightarrow> loginKimiCode fuel callbacks srv w3))"

text \<open>
  Lines 201 to 240 on their own, for stating properties of one pass through the body of
  the outer loop: the authorization is presented and polled for until the inner loop ends.
\<close>

definition poll_device_code ::
  "OAuthLoginCallbacks \<Rightarrow> server \<Rightarrow> DeviceAuthorization \<Rightarrow> world
     \<Rightarrow> TokenResponse option outcome \<times> world" where
  "poll_device_code callbacks srv auth w1 =
     poll_loop callbacks srv auth (max (interval auth) 1 * 1000)
       (now (present_authorization auth w1) + expires_in auth * 1000) False
       (present_authorization auth w1)"

definition refreshKimiCodeToken ::
  "server \<Rightarrow> OAuthCredentials \<Rightarrow> world \<Rightarrow> OAuthCredentials outcome \<times> world" where
  "refreshKimiCodeToken srv credentials w =
     (case refreshAccessToken srv (refresh credentials) w of
        (Throw error, w1) \<Rightarrow> (Throw error, w1)
      | (Return token, w1) \<Rightarrow> (Return (credentials_of token w1), w1))"

section \<open>Concrete servers and worlds\<close>

definition world0 :: world where
  "world0 = \<lparr>now = 1000000, requests = 0, log = []\<rparr>"

definition json_device :: "string \<Rightarrow> int option \<Rightarrow> int option \<Rightarrow> device_authorization_json" where
  "json_device dc e i =
     \<lparr>j_user_code = Some ''ABCD-1234'', j_device_code = Some dc,
      j_verification_uri = None,
      j_verification_uri_complete = Some ''https://auth.kimi.com/activate?code=ABCD-1234'',
      j_expires_in = e, j_interval = i\<rparr>"

definition json_empty :: token_json where
  "json_empty =
     \<lparr>j_access_token = None, j_refresh_token = None, j_token_expires_in = None,
      j_scope = None, j_token_type = None, j_error = None, j_error_description = None\<rparr>"

text \<open>A token body, with any number as lifetime and with a whole number of seconds.\<close>

definition json_token_number :: "string option \<Rightarrow> string option \<Rightarrow> number option \<Rightarrow> token_json" where
  "json_token_number a r x =
     json_empty\<lparr>j_access_token := a, j_refresh_token := r, j_token_expires_in := x\<rparr>"

definition json_token :: "string option \<Rightarrow> string option \<Rightarrow> int option \<Rightarrow> token_json" where
  "json_token a r e =
     json_empty\<lparr>j_access_token := a, j_refresh_token := r,
                j_token_expires_in := map_option double_of_int e\<rparr>"

definition json_error :: "string \<Rightarrow> token_json" where
  "json_error c = json_empty\<lparr>j_error := Some c\<rparr>"

definition reply :: "nat \<Rightarrow> 'j \<Rightarrow> 'j fetch_result" where
  "reply st data = Resolved 20 \<lparr>status = st, body_text = None, body_json = Some data\<rparr>"

text \<open>A server whose device authorization leaves out \<^verbatim>\<open>expires_in\<close> and \<^verbatim>\<open>interval\<close>.\<close>

definition server_no_times :: server where
  "server_no_times =
     \<lparr>device_authorization_endpoint = (\<lambda>k rq. reply 200 (json_device ''dc1'' None None)),
      token_endpoint = (\<lambda>k rq. reply 400 (json_error ''authorization_pending''))\<rparr>"

definition auth_dc1 :: "int \<Rightarrow> int \<Rightarrow> DeviceAuthorization" where
  "auth_dc1 e i = \<lparr>user_code = ''ABCD-1234'', device_code = ''dc1'', verification_uri = [],
               verification_uri_complete = ''https://auth.kimi.com/activate?code=ABCD-1234'',
               expires_in = e, interval = i\<rparr>"

text \<open>A server that answers every request in the same way.\<close>

definition server_const ::
  "device_authorization_json fetch_result \<Rightarrow> token_json fetch_result \<Rightarrow> server" where
  "server_const da tk =
     \<lparr>device_authorization_endpoint = (\<lambda>k rq. da), token_endpoint = (\<lambda>k rq. tk)\<rparr>"

definition server_zero_times :: server where
  "server_zero_times =
     \<lparr>device_authorization_endpoint = (\<lambda>k rq. reply 200 (json_device ''dc1'' (Some 0) (Some 0))),
      token_endpoint = (\<lambda>k rq. reply 400 (json_error ''authorization_pending''))\<rparr>"

definition server_empty_strings :: server where
  "server_empty_strings =
     \<lparr>device_authorization_endpoint =
        (\<lambda>k rq. reply 200 ((json_device ''dc1'' (Some 1800) (Some 5))\<lparr>j_user_code := Some []\<rparr>)),
      token_endpoint = (\<lambda>k rq. reply 200 (json_token (Some []) (Some ''rt1'') (Some 3600)))\<rparr>"

text \<open>Scenario 1 of the specification: three polls pending, the fourth returns a token.\<close>

definition server_fourth_poll :: server where
  "server_fourth_poll =
     \<lparr>device_authorization_endpoint =
        (\<lambda>k rq. reply 200 (json_device ''dc1'' (Some 1800) (Some 5))),
      token_endpoint =
        (\<lambda>k rq. if k < 4 then reply 400 (json_error ''authorization_pending'')
                 else reply 200 (json_token (Some ''at1'') (Some ''rt1'') (Some 3600)))\<rparr>"

definition callbacks0 :: OAuthLoginCallbacks where
  "callbacks0 = \<lparr>onProgress = True, signal = None\<rparr>"

definition credentials0 :: OAuthCredentials where
  "credentials0 = \<lparr>access = ''at0'', refresh = ''rt0'', expires = double_of_int 1000000\<rparr>"

definition server_expires_in :: "number \<Rightarrow> server" where
  "server_expires_in x =
     server_const (Rejected 0)
       (Resolved 21 \<lparr>status = 200, body_text = None,
                     body_json = Some (json_token_number (Some ''at2'') (Some ''rt2'') (Some x))\<rparr>)"

section \<open>Properties of traces\<close>

text \<open>
  A property of the whole run is stated on the log, read from the oldest event on by a
  monitor: a state, a step per event, and \<open>None\<close> as soon as an event breaks the property.
\<close>

fun run_monitor :: "('s \<Rightarrow> event \<Rightarrow> 's option) \<Rightarrow> 's \<Rightarrow> event list \<Rightarrow> 's option" where
  "run_monitor step s [] = Some s"
| "run_monitor step s (e # es) =
     (case step s e of None \<Rightarrow> None | Some s' \<Rightarrow> run_monitor step s' es)"

text \<open>
  Pacing. The monitor keeps the clock from the latencies and timer delays in the log, the
  device authorization in force and, after a token exchange answered
  \<^verbatim>\<open>authorization_pending\<close> (the one \<^verbatim>\<open>requestDeviceToken\<close> returns \<^verbatim>\<open>null\<close> for), the time
  at which the next request is due: \<open>max interval 1\<close> seconds after the exchange completed,
  or 1 millisecond after it when that many milliseconds are more than a timer of Node can
  hold. A request may be issued at the due time only.
\<close>

definition wait_ms :: "DeviceAuthorization \<Rightarrow> int" where
  "wait_ms auth =
     (if max (interval auth) 1 * 1000 \<le> 2147483647 then max (interval auth) 1 * 1000 else 1)"

fun pace_step ::
  "int \<times> DeviceAuthorization option \<times> int option \<Rightarrow> event
     \<Rightarrow> (int \<times> DeviceAuthorization option \<times> int option) option" where
  "pace_step (t, cur, due) (DeviceAuthorizationExchange rq res) =
     (if due = None \<or> due = Some t
      then Some (t + int (latency res),
                 case read_device_authorization res of
                   Return auth \<Rightarrow> Some auth | Throw e \<Rightarrow> None,
                 None)
      else None)"
| "pace_step (t, cur, due) (TokenExchange rq res) =
     (if due = None \<or> due = Some t
      then (case cur of
              None \<Rightarrow> None
            | Some auth \<Rightarrow>
                Some (t + int (latency res), cur,
                      if read_device_token res = Return None
                      then Some (t + int (latency res) + wait_ms auth) else None))
      else None)"
| "pace_step (t, cur, due) (SetTimeout ms) = Some (t + timer_delay ms, cur, due)"
| "pace_step (t, cur, due) (OnAuth u i) = Some (t, cur, due)"
| "pace_step (t, cur, due) (OnProgress m) = Some (t, cur, due)"

text \<open>A server whose poll interval is more than a timer can hold.\<close>

definition server_long_interval :: server where
  "server_long_interval =
     \<lparr>device_authorization_endpoint =
        (\<lambda>k rq. reply 200 (json_device ''dc1'' (Some 1800) (Some 2147484))),
      token_endpoint =
        (\<lambda>k rq. if k < 2 then reply 400 (json_error ''authorization_pending'')
                 else reply 200 (json_token (Some ''at1'') (Some ''rt1'') (Some 3600)))\<rparr>"

text \<open>
  Device codes. The state is the device code in force (the one of the latest device
  authorization that \<^verbatim>\<open>requestDeviceAuthorization\<close> returned), none, or expired: a token
  exchange answered \<^verbatim>\<open>expired_token\<close> ends the code in force. A token exchange has to
  carry the code in force, and once the code has expired nothing but the notice of it may
  come before the next device authorization.
\<close>

datatype code_state = NoCode | InForce string | Expired

fun code_step :: "code_state \<Rightarrow> event \<Rightarrow> code_state option" where
  "code_step st (DeviceAuthorizationExchange rq res) =
     Some (case read_device_authorization res of
             Return auth \<Rightarrow> InForce (device_code auth) | Throw e \<Rightarrow> NoCode)"
| "code_step st (TokenExchange rq res) =
     (case st of
        InForce dc \<Rightarrow>
          if map_of (body rq) ''device_code'' = Some dc
          then Some (if read_device_token res = Throw (Error ''expired_token'')
                     then Expired else InForce dc)
          else None
      | _ \<Rightarrow> None)"
| "code_step st (OnAuth u i) = (if st = Expired then None else Some st)"
| "code_step st (SetTimeout ms) = (if st = Expired then None else Some st)"
| "code_step st (OnProgress m) = Some st"






definition device_codes_sent :: "world \<Rightarrow> string option list" where
  "device_codes_sent w =
     concat (map (\<lambda>e. case e of TokenExchange rq res \<Rightarrow> [map_of (body rq) ''device_code'']
                       | _ \<Rightarrow> []) (log w))"

text \<open>
  Cancellation. The state is the clock, which the monitor keeps from the latencies and
  timer delays in the log, and whether the run is halted: a token exchange answered
  \<^verbatim>\<open>authorization_pending\<close> that completes while the host's signal is set halts the run.
  After that only the waiting notice may follow.
\<close>

fun abort_step :: "OAuthLoginCallbacks \<Rightarrow> int \<times> bool \<Rightarrow> event \<Rightarrow> (int \<times> bool) option" where
  "abort_step callbacks (t, halted) (TokenExchange rq res) =
     (if halted then None
      else Some (t + int (latency res),
                 read_device_token res = Return None
                   \<and> signalled callbacks (t + int (latency res))))"
| "abort_step callbacks (t, halted) (DeviceAuthorizationExchange rq res) =
     (if halted then None else Some (t + int (latency res), False))"
| "abort_step callbacks (t, halted) (SetTimeout ms) =
     (if halted then None else Some (t + timer_delay ms, False))"
| "abort_step callbacks (t, halted) (OnAuth u i) = (if halted then None else Some (t, False))"
| "abort_step callbacks (t, halted) (OnProgress m) = Some (t, halted)"

text \<open>A host that cancels at a given time, and a server that grants the second poll.\<close>

definition callbacks_abort_at :: "int \<Rightarrow> OAuthLoginCallbacks" where
  "callbacks_abort_at t = \<lparr>onProgress = True, signal = Some (\<lambda>x. t \<le> x)\<rparr>"

definition server_second_poll :: server where
  "server_second_poll =
     \<lparr>device_authorization_endpoint =
        (\<lambda>k rq. reply 200 (json_device ''dc1'' (Some 1800) (Some 5))),
      token_endpoint =
        (\<lambda>k rq. if k < 2 then reply 400 (json_error ''authorization_pending'')
                 else reply 200 (json_token (Some ''at1'') (Some ''rt1'') (Some 3600)))\<rparr>"

section \<open>Defaults of the device authorization\<close>

text \<open>
  C4. When \<^verbatim>\<open>requestDeviceAuthorization\<close> returns a device authorization and the
  response it read has no \<^verbatim>\<open>expires_in\<close>, the lifetime is 1800; when the response has no
  \<^verbatim>\<open>interval\<close>, the poll interval is 5.
\<close>

theorem device_authorization_defaults_absent:
  assumes "fst (requestDeviceAuthorization srv w) = Return auth"
    and "device_authorization_endpoint srv (requests w) device_authorization_request
           = Resolved ms response"
    and "body_json response = Some data"
  shows "(j_expires_in data = None \<longrightarrow> expires_in auth = 1800)
       \<and> (j_interval data = None \<longrightarrow> interval auth = 5)"
  using assms
  by (auto simp: requestDeviceAuthorization_def read_device_authorization_def Let_def num_or_def
           split: if_splits)

theorem device_authorization_defaults_absent_witness:
  "fst (requestDeviceAuthorization server_no_times world0) = Return (auth_dc1 1800 5)
   \<and> j_expires_in (json_device ''dc1'' None None) = None
   \<and> j_interval (json_device ''dc1'' None None) = None
   \<and> expires_in (auth_dc1 1800 5) = 1800 \<and> interval (auth_dc1 1800 5) = 5"
proof -
  have run: "fst (requestDeviceAuthorization server_no_times world0) = Return (auth_dc1 1800 5)"
    by (simp add: requestDeviceAuthorization_def read_device_authorization_def Let_def
          server_no_times_def reply_def json_device_def ok_def str_or_def num_or_def auth_dc1_def)
  have ep: "device_authorization_endpoint server_no_times (requests world0)
              device_authorization_request
            = Resolved 20 \<lparr>status = 200, body_text = None,
                            body_json = Some (json_device ''dc1'' None None)\<rparr>"
    by (simp add: server_no_times_def reply_def)
  have js: "body_json \<lparr>status = 200, body_text = None,
                            body_json = Some (json_device ''dc1'' None None)\<rparr> = Some (json_device ''dc1'' None None)"
    by simp
  show ?thesis
    using device_authorization_defaults_absent [OF run ep js] run
    by (simp add: json_device_def)
qed

text \<open>
  C9. The defaults also replace a reported 0: when \<^verbatim>\<open>requestDeviceAuthorization\<close> returns
  a device authorization and the response carries \<^verbatim>\<open>expires_in\<close> equal to 0, the lifetime
  is 1800; when it carries \<^verbatim>\<open>interval\<close> equal to 0, the poll interval is 5.
\<close>

theorem device_authorization_defaults_zero:
  assumes "fst (requestDeviceAuthorization srv w) = Return auth"
    and "device_authorization_endpoint srv (requests w) device_authorization_request
           = Resolved ms response"
    and "body_json response = Some data"
  shows "(j_expires_in data = Some 0 \<longrightarrow> expires_in auth = 1800)
       \<and> (j_interval data = Some 0 \<longrightarrow> interval auth = 5)"
  using assms
  by (auto simp: requestDeviceAuthorization_def read_device_authorization_def Let_def num_or_def
           split: if_splits)

theorem device_authorization_defaults_zero_witness:
  "fst (requestDeviceAuthorization server_zero_times world0) = Return (auth_dc1 1800 5)
   \<and> j_expires_in (json_device ''dc1'' (Some 0) (Some 0)) = Some 0
   \<and> j_interval (json_device ''dc1'' (Some 0) (Some 0)) = Some 0
   \<and> expires_in (auth_dc1 1800 5) = 1800 \<and> interval (auth_dc1 1800 5) = 5"
proof -
  have run: "fst (requestDeviceAuthorization server_zero_times world0) = Return (auth_dc1 1800 5)"
    by (simp add: requestDeviceAuthorization_def read_device_authorization_def Let_def
          server_zero_times_def reply_def json_device_def ok_def str_or_def num_or_def auth_dc1_def)
  have ep: "device_authorization_endpoint server_zero_times (requests world0)
              device_authorization_request
            = Resolved 20 \<lparr>status = 200, body_text = None,
                            body_json = Some (json_device ''dc1'' (Some 0) (Some 0))\<rparr>"
    by (simp add: server_zero_times_def reply_def)
  have js: "body_json \<lparr>status = 200, body_text = None,
               body_json = Some (json_device ''dc1'' (Some 0) (Some 0))\<rparr>
             = Some (json_device ''dc1'' (Some 0) (Some 0))"
    by simp
  show ?thesis
    using device_authorization_defaults_zero [OF run ep js] run
    by (simp add: json_device_def)
qed

section \<open>Empty strings in required fields\<close>

text \<open>
  C10. A required field that is the empty string counts as absent. A 200 device
  authorization response whose \<^verbatim>\<open>user_code\<close>, \<^verbatim>\<open>device_code\<close> or
  \<^verbatim>\<open>verification_uri_complete\<close> is empty fails with the invalid-response error, and a 200
  token response whose \<^verbatim>\<open>access_token\<close> or \<^verbatim>\<open>refresh_token\<close> is empty fails with the
  missing-fields error; in each case the response is read exactly as the one without the field.
\<close>

theorem empty_string_is_absent:
  assumes "device_authorization_endpoint srv (requests w) device_authorization_request
             = Resolved ms response"
    and "status response = 200" and "body_json response = Some data"
    and "token_endpoint srv (requests w) (device_token_request auth) = Resolved ms' response'"
    and "status response' = 200" and "body_json response' = Some data'"
  shows "(j_user_code data = Some [] \<or> j_device_code data = Some []
            \<or> j_verification_uri_complete data = Some []
          \<longrightarrow> fst (requestDeviceAuthorization srv w)
                = Throw (Error ''Invalid device authorization response''))
       \<and> (j_access_token data' = Some [] \<or> j_refresh_token data' = Some []
          \<longrightarrow> fst (requestDeviceToken srv auth w)
                = Throw (Error ''Token response missing required fields''))
       \<and> read_device_authorization (Resolved ms
            (response\<lparr>body_json := Some (data\<lparr>j_user_code := Some []\<rparr>)\<rparr>))
         = read_device_authorization (Resolved ms
            (response\<lparr>body_json := Some (data\<lparr>j_user_code := None\<rparr>)\<rparr>))
       \<and> read_device_authorization (Resolved ms
            (response\<lparr>body_json := Some (data\<lparr>j_device_code := Some []\<rparr>)\<rparr>))
         = read_device_authorization (Resolved ms
            (response\<lparr>body_json := Some (data\<lparr>j_device_code := None\<rparr>)\<rparr>))
       \<and> read_device_authorization (Resolved ms
            (response\<lparr>body_json := Some (data\<lparr>j_verification_uri_complete := Some []\<rparr>)\<rparr>))
         = read_device_authorization (Resolved ms
            (response\<lparr>body_json := Some (data\<lparr>j_verification_uri_complete := None\<rparr>)\<rparr>))
       \<and> read_device_token (Resolved ms'
            (response'\<lparr>body_json := Some (data'\<lparr>j_access_token := Some []\<rparr>)\<rparr>))
         = read_device_token (Resolved ms'
            (response'\<lparr>body_json := Some (data'\<lparr>j_access_token := None\<rparr>)\<rparr>))
       \<and> read_device_token (Resolved ms'
            (response'\<lparr>body_json := Some (data'\<lparr>j_refresh_token := Some []\<rparr>)\<rparr>))
         = read_device_token (Resolved ms'
            (response'\<lparr>body_json := Some (data'\<lparr>j_refresh_token := None\<rparr>)\<rparr>))"
  using assms
  by (simp add: requestDeviceAuthorization_def read_device_authorization_def Let_def ok_def
        requestDeviceToken_def read_device_token_def)

theorem empty_string_is_absent_witness:
  "fst (requestDeviceAuthorization server_empty_strings world0)
     = Throw (Error ''Invalid device authorization response'')
   \<and> fst (requestDeviceToken server_empty_strings (auth_dc1 1800 5) world0)
     = Throw (Error ''Token response missing required fields'')"
proof -
  let ?d = "(json_device ''dc1'' (Some 1800) (Some 5))\<lparr>j_user_code := Some []\<rparr>"
  let ?t = "json_token (Some []) (Some ''rt1'') (Some 3600)"
  have ep: "device_authorization_endpoint server_empty_strings (requests world0)
              device_authorization_request
            = Resolved 20 \<lparr>status = 200, body_text = None, body_json = Some ?d\<rparr>"
    by (simp add: server_empty_strings_def reply_def)
  have ep': "token_endpoint server_empty_strings (requests world0)
               (device_token_request (auth_dc1 1800 5))
             = Resolved 20 \<lparr>status = 200, body_text = None, body_json = Some ?t\<rparr>"
    by (simp add: server_empty_strings_def reply_def)
  show ?thesis
    using empty_string_is_absent [OF ep _ _ ep', of ?d ?t]
    by (simp add: json_token_def json_device_def)
qed

section \<open>One token exchange\<close>

lemma log_requestDeviceToken:
  "log (snd (requestDeviceToken srv auth w))
     = log w @ [TokenExchange (device_token_request auth)
                  (token_endpoint srv (requests w) (device_token_request auth))]"
  by (simp add: requestDeviceToken_def Let_def after_fetch_def emit_def)

text \<open>
  C2, as the code has it. \<^verbatim>\<open>requestDeviceToken\<close> reads the response of its one POST as
  follows: status 200 with \<^verbatim>\<open>access_token\<close> and \<^verbatim>\<open>refresh_token\<close> both present and not
  empty returns the populated token response; status 200 otherwise fails with the
  missing-fields error; status 400 with error \<^verbatim>\<open>authorization_pending\<close> returns the
  "no token yet" result; status 400 with error \<^verbatim>\<open>expired_token\<close> fails with the
  \<^verbatim>\<open>expired_token\<close> error, which no other response produces; any other 400 and any other
  status fail with a request-failed error. The call adds exactly one exchange, a POST, to
  the log.
\<close>

theorem device_token_classification:
  assumes "token_endpoint srv (requests w) (device_token_request auth) = Resolved ms response"
  shows "(status response = 200 \<and> body_json response = Some data
            \<and> j_access_token data = Some a \<and> a \<noteq> [] \<and> j_refresh_token data = Some r \<and> r \<noteq> []
          \<longrightarrow> fst (requestDeviceToken srv auth w)
                = Return (Some \<lparr>access_token = a, refresh_token = r,
                                 token_expires_in = j_token_expires_in data,
                                 scope = j_scope data, token_type = j_token_type data\<rparr>))
       \<and> (status response = 200 \<and> body_json response = Some data
            \<and> \<not> (truthy_str (j_access_token data) \<and> truthy_str (j_refresh_token data))
          \<longrightarrow> fst (requestDeviceToken srv auth w)
                = Throw (Error ''Token response missing required fields''))
       \<and> (status response = 400 \<and> body_json response = Some data
            \<and> j_error data = Some ''authorization_pending''
          \<longrightarrow> fst (requestDeviceToken srv auth w) = Return None)
       \<and> (status response = 400 \<and> body_json response = Some data
            \<and> j_error data = Some ''expired_token''
          \<longrightarrow> fst (requestDeviceToken srv auth w) = Throw (Error ''expired_token''))
       \<and> (status response = 400 \<and> body_json response = Some data
            \<and> j_error data \<noteq> Some ''authorization_pending''
            \<and> j_error data \<noteq> Some ''expired_token''
          \<longrightarrow> (\<exists>msg. fst (requestDeviceToken srv auth w)
                        = Throw (Error (''Token request failed: '' @ msg))))
       \<and> (status response \<noteq> 200 \<and> status response \<noteq> 400
          \<longrightarrow> fst (requestDeviceToken srv auth w)
                = Throw (Error (''Token request failed: '' @ show_nat (status response)
                                @ '' '' @ text_or_empty response)))
       \<and> (\<not> (status response = 400
               \<and> (\<exists>d. body_json response = Some d \<and> j_error d = Some ''expired_token''))
          \<longrightarrow> fst (requestDeviceToken srv auth w) \<noteq> Throw (Error ''expired_token''))
       \<and> log (snd (requestDeviceToken srv auth w))
           = log w @ [TokenExchange (device_token_request auth) (Resolved ms response)]
       \<and> http_method (device_token_request auth) = ''POST''"
proof -
  have r: "fst (requestDeviceToken srv auth w) = read_device_token (Resolved ms response)"
    using assms by (simp add: requestDeviceToken_def Let_def)
  have l: "log (snd (requestDeviceToken srv auth w))
           = log w @ [TokenExchange (device_token_request auth) (Resolved ms response)]"
    using assms by (simp add: log_requestDeviceToken)
  have m: "http_method (device_token_request auth) = ''POST''"
    by (simp add: device_token_request_def)
  show ?thesis
    unfolding r l m
    by (auto simp: read_device_token_def as_TokenResponse_def split: option.splits)
qed

theorem device_token_classification_witness:
  "fst (requestDeviceToken
         (server_const (Rejected 0) (reply 200 (json_token (Some ''at1'') (Some ''rt1'') (Some 3600))))
         (auth_dc1 1800 5) world0)
     = Return (Some \<lparr>access_token = ''at1'', refresh_token = ''rt1'',
                      token_expires_in = Some (double_of_int 3600), scope = None,
                      token_type = None\<rparr>)
   \<and> fst (requestDeviceToken
         (server_const (Rejected 0) (reply 400 (json_error ''authorization_pending'')))
         (auth_dc1 1800 5) world0)
     = Return None
   \<and> fst (requestDeviceToken
         (server_const (Rejected 0) (reply 400 (json_error ''expired_token'')))
         (auth_dc1 1800 5) world0)
     = Throw (Error ''expired_token'')
   \<and> fst (requestDeviceToken
         (server_const (Rejected 0) (reply 500 json_empty))
         (auth_dc1 1800 5) world0)
     = Throw (Error ''Token request failed: 500 '')
   \<and> fst (requestDeviceToken
         (server_const (Rejected 0) (reply 500 json_empty))
         (auth_dc1 1800 5) world0)
     \<noteq> Throw (Error ''expired_token'')"
proof -
  let ?a = "auth_dc1 1800 5"
  have e: "token_endpoint (server_const (Rejected 0) (reply st data)) (requests world0)
             (device_token_request ?a)
           = Resolved 20 \<lparr>status = st, body_text = None, body_json = Some data\<rparr>" for st data
    by (simp add: server_const_def reply_def)
  show ?thesis
    using device_token_classification
            [OF e, of 200 "json_token (Some ''at1'') (Some ''rt1'') (Some 3600)"
               "json_token (Some ''at1'') (Some ''rt1'') (Some 3600)" "''at1''" "''rt1''"]
          device_token_classification
            [OF e, of 400 "json_error ''authorization_pending''"
               "json_error ''authorization_pending''"]
          device_token_classification
            [OF e, of 400 "json_error ''expired_token''" "json_error ''expired_token''"]
          device_token_classification [OF e, of 500 json_empty json_empty]
    by (simp add: json_token_def json_error_def json_empty_def text_or_empty_def
          show_nat.simps digit_char_def)
qed

text \<open>
  C2 as stated has a token returned whenever both fields are present. The code asks for
  more: here both are present, \<^verbatim>\<open>access_token\<close> is the empty string, and the call fails.
\<close>

theorem present_empty_token_counterexample:
  "status \<lparr>status = 200, body_text = None,
            body_json = Some (json_token (Some []) (Some ''rt1'') (Some 3600))\<rparr> = 200
   \<and> j_access_token (json_token (Some []) (Some ''rt1'') (Some 3600)) \<noteq> None
   \<and> j_refresh_token (json_token (Some []) (Some ''rt1'') (Some 3600)) \<noteq> None
   \<and> fst (requestDeviceToken
            (server_const (Rejected 0) (reply 200 (json_token (Some []) (Some ''rt1'') (Some 3600))))
            (auth_dc1 1800 5) world0)
       = Throw (Error ''Token response missing required fields'')"
  by (simp add: requestDeviceToken_def read_device_token_def server_const_def reply_def
        json_token_def)

section \<open>One refresh exchange\<close>

lemma log_refreshAccessToken:
  "log (snd (refreshAccessToken srv rt w))
     = log w @ [TokenExchange (refresh_token_request rt)
                  (token_endpoint srv (requests w) (refresh_token_request rt))]"
  by (simp add: refreshAccessToken_def Let_def after_fetch_def emit_def)

text \<open>
  C8. \<^verbatim>\<open>refreshAccessToken\<close> performs exactly one exchange, a POST. On status 401 or 403 it
  fails with the refresh-unauthorized error. On every other status that is not a success
  it fails with the refresh-failed error, and on a success response without a non-empty
  \<^verbatim>\<open>access_token\<close> and \<^verbatim>\<open>refresh_token\<close> with the missing-fields error; whatever the call
  does on a status other than 401 and 403, it is never the refresh-unauthorized error.
\<close>

theorem refresh_classification:
  assumes "token_endpoint srv (requests w) (refresh_token_request rt) = Resolved ms response"
  shows "(status response = 401 \<or> status response = 403
          \<longrightarrow> fst (refreshAccessToken srv rt w)
                = Throw (Error (''Token refresh unauthorized: '' @ text_or_empty response)))
       \<and> (\<not> ok response \<and> status response \<noteq> 401 \<and> status response \<noteq> 403
          \<longrightarrow> fst (refreshAccessToken srv rt w)
                = Throw (Error (''Token refresh failed: '' @ show_nat (status response)
                                @ '' '' @ text_or_empty response)))
       \<and> (ok response \<and> body_json response = Some data
            \<and> (\<not> truthy_str (j_access_token data) \<or> \<not> truthy_str (j_refresh_token data))
          \<longrightarrow> fst (refreshAccessToken srv rt w)
                = Throw (Error ''Token refresh response missing required fields''))
       \<and> (status response \<noteq> 401 \<and> status response \<noteq> 403
          \<longrightarrow> (\<forall>t. fst (refreshAccessToken srv rt w)
                     \<noteq> Throw (Error (''Token refresh unauthorized: '' @ t))))
       \<and> log (snd (refreshAccessToken srv rt w))
           = log w @ [TokenExchange (refresh_token_request rt) (Resolved ms response)]
       \<and> http_method (refresh_token_request rt) = ''POST''"
proof -
  have r: "fst (refreshAccessToken srv rt w) = read_refreshed_token (Resolved ms response)"
    using assms by (simp add: refreshAccessToken_def Let_def)
  have l: "log (snd (refreshAccessToken srv rt w))
           = log w @ [TokenExchange (refresh_token_request rt) (Resolved ms response)]"
    using assms by (simp add: log_refreshAccessToken)
  have m: "http_method (refresh_token_request rt) = ''POST''"
    by (simp add: refresh_token_request_def)
  show ?thesis
    unfolding r l m
    by (auto simp: read_refreshed_token_def ok_def split: option.splits)
qed

theorem refresh_classification_witness:
  "fst (refreshAccessToken (server_const (Rejected 0) (reply 401 json_empty)) ''rt0'' world0)
     = Throw (Error ''Token refresh unauthorized: '')
   \<and> fst (refreshAccessToken (server_const (Rejected 0) (reply 403 json_empty)) ''rt0'' world0)
     = Throw (Error ''Token refresh unauthorized: '')
   \<and> fst (refreshAccessToken (server_const (Rejected 0) (reply 500 json_empty)) ''rt0'' world0)
     = Throw (Error ''Token refresh failed: 500 '')
   \<and> fst (refreshAccessToken (server_const (Rejected 0) (reply 200 json_empty)) ''rt0'' world0)
     = Throw (Error ''Token refresh response missing required fields'')
   \<and> log (snd (refreshAccessToken (server_const (Rejected 0) (reply 401 json_empty)) ''rt0'' world0))
     = [TokenExchange (refresh_token_request ''rt0'') (reply 401 json_empty)]"
proof -
  have e: "token_endpoint (server_const (Rejected 0) (reply st data)) (requests world0)
             (refresh_token_request ''rt0'')
           = Resolved 20 \<lparr>status = st, body_text = None, body_json = Some data\<rparr>" for st data
    by (simp add: server_const_def reply_def)
  show ?thesis
    using refresh_classification [OF e, of 401 json_empty json_empty]
          refresh_classification [OF e, of 403 json_empty json_empty]
          refresh_classification [OF e, of 500 json_empty json_empty]
          refresh_classification [OF e, of 200 json_empty json_empty]
    by (simp add: json_empty_def text_or_empty_def ok_def world0_def reply_def
          show_nat.simps digit_char_def)
qed

section \<open>Reasoning about the polling loop\<close>

text \<open>
  A rule for the inner loop: an invariant \<open>I\<close> of the loop head that every iteration going
  round keeps, and a property \<open>Q\<close> of the result that each way out of the loop establishes.
\<close>

lemma poll_loop_rule:
  assumes init: "I printedWaiting w"
    and round: "\<And>p w. I p w \<Longrightarrow> now w < expiresAt
        \<Longrightarrow> fst (requestDeviceToken srv auth w) = Return None
        \<Longrightarrow> \<not> aborted callbacks (note_waiting callbacks p (snd (requestDeviceToken srv auth w)))
        \<Longrightarrow> I True (sleep interval_ms
                      (note_waiting callbacks p (snd (requestDeviceToken srv auth w))))"
    and deadline: "\<And>p w. I p w \<Longrightarrow> \<not> now w < expiresAt \<Longrightarrow> Q (Return None, w)"
    and token: "\<And>p w t. I p w \<Longrightarrow> now w < expiresAt
        \<Longrightarrow> fst (requestDeviceToken srv auth w) = Return (Some t)
        \<Longrightarrow> Q (Return (Some t), snd (requestDeviceToken srv auth w))"
    and expired: "\<And>p w e. I p w \<Longrightarrow> now w < expiresAt
        \<Longrightarrow> fst (requestDeviceToken srv auth w) = Throw e \<Longrightarrow> is_expired_token e
        \<Longrightarrow> Q (Return None, progress callbacks ''Device code expired, restarting...''
                               (snd (requestDeviceToken srv auth w)))"
    and fatal: "\<And>p w e. I p w \<Longrightarrow> now w < expiresAt
        \<Longrightarrow> fst (requestDeviceToken srv auth w) = Throw e \<Longrightarrow> \<not> is_expired_token e
        \<Longrightarrow> Q (Throw e, snd (requestDeviceToken srv auth w))"
    and abort: "\<And>p w. I p w \<Longrightarrow> now w < expiresAt
        \<Longrightarrow> fst (requestDeviceToken srv auth w) = Return None
        \<Longrightarrow> aborted callbacks (note_waiting callbacks p (snd (requestDeviceToken srv auth w)))
        \<Longrightarrow> Q (Throw (Error ''Authorization aborted''),
               note_waiting callbacks p (snd (requestDeviceToken srv auth w)))"
  shows "Q (poll_loop callbacks srv auth interval_ms expiresAt printedWaiting w)"
proof -
  have "cb = callbacks \<Longrightarrow> s = srv \<Longrightarrow> a = auth \<Longrightarrow> i = interval_ms \<Longrightarrow> x = expiresAt
        \<Longrightarrow> I p w \<Longrightarrow> Q (poll_loop cb s a i x p w)" for cb s a i x p w
  proof (induction cb s a i x p w rule: poll_loop.induct)
    case (1 cb s a i x p w)
    note unfold = poll_loop.simps [of callbacks srv auth interval_ms expiresAt p w]
    note eqs = "1.prems"(1-5)
    note Ipw = "1.prems"(6)
    show ?case
      unfolding eqs
    proof (cases "now w < expiresAt")
      case False
      then show "Q (poll_loop callbacks srv auth interval_ms expiresAt p w)"
        using deadline [OF Ipw] by (simp add: unfold)
    next
      case True
      obtain r w1 where rd: "requestDeviceToken srv auth w = (r, w1)" by force
      show "Q (poll_loop callbacks srv auth interval_ms expiresAt p w)"
      proof (cases r)
        case (Throw e)
        then show ?thesis
          using expired [OF Ipw True, of e] fatal [OF Ipw True, of e] True rd
          by (simp add: unfold)
      next
        case (Return z)
        show ?thesis
        proof (cases z)
          case (Some t)
          then show ?thesis
            using token [OF Ipw True, of t] True rd Return by (simp add: unfold)
        next
          case None
          define w2 where "w2 = note_waiting callbacks p w1"
          show ?thesis
          proof (cases "aborted callbacks w2")
            case True
            then show ?thesis
              using abort [OF Ipw \<open>now w < expiresAt\<close>] rd Return None \<open>now w < expiresAt\<close>
              by (simp add: unfold w2_def)
          next
            case False
            have I': "I True (sleep interval_ms w2)"
              using round [OF Ipw \<open>now w < expiresAt\<close>] rd Return None False
              by (simp add: w2_def)
            have "Q (poll_loop cb s a i x True (sleep i w2))"
              using "1.IH" [of r w1 z w2] eqs \<open>now w < expiresAt\<close> rd Return None False I'
              by (simp add: w2_def)
            then show ?thesis
              using rd Return None False \<open>now w < expiresAt\<close> eqs by (simp add: unfold w2_def)
          qed
        qed
      qed
    qed
  qed
  then show ?thesis
    using init by blast
qed

section \<open>Arithmetic on doubles that are integers\<close>

lemmas number_eval = double_of_int_def round53_def finish_def normal.simps bitlen.simps Let_def

lemma bitlen_lower: "n \<noteq> 0 \<Longrightarrow> 2 ^ (bitlen n - 1) \<le> n"
proof (induction n rule: bitlen.induct)
  case (1 n)
  show ?case
  proof (cases "n div 2 = 0")
    case True
    with "1.prems" have "n = 1" by presburger
    then show ?thesis by (simp add: bitlen.simps)
  next
    case False
    from "1.IH" [OF "1.prems" False] have "2 ^ (bitlen (n div 2) - 1) \<le> n div 2" .
    moreover have "bitlen (n div 2) \<noteq> 0"
      using False by (subst bitlen.simps) simp
    moreover have "bitlen n = Suc (bitlen (n div 2))"
      using "1.prems" by (subst bitlen.simps) simp
    ultimately have "2 * 2 ^ (bitlen (n div 2) - 1) \<le> 2 * (n div 2)"
      and b: "bitlen n - 1 = Suc (bitlen (n div 2) - 1)"
      by simp_all
    then have "2 ^ (bitlen n - 1) \<le> 2 * (n div 2)"
      by simp
    also have "\<dots> \<le> n" by simp
    finally show ?thesis .
  qed
qed

lemma normal_shift: "normal (m * 2 ^ j) e = normal m (e + int j)"
proof (induction j arbitrary: e)
  case 0
  then show ?case by simp
next
  case (Suc j)
  show ?case
  proof (cases "m = 0")
    case True
    then show ?thesis by (simp add: normal.simps)
  next
    case False
    have "normal (m * 2 ^ Suc j) e = normal (m * 2 ^ j) (e + 1)"
      using False by (subst normal.simps) simp
    then show ?thesis
      by (simp add: Suc.IH add.assoc)
  qed
qed

lemma normal_decomp:
  "\<exists>a f. normal m e = Num a f \<and> (m \<noteq> 0 \<longrightarrow> e \<le> f) \<and> m = a * 2 ^ nat (f - e)"
proof (induction m e rule: normal.induct)
  case (1 m e)
  show ?case
  proof (cases "m = 0")
    case True
    then show ?thesis by (simp add: normal.simps)
  next
    case m: False
    show ?thesis
    proof (cases "even m")
      case False
      with m show ?thesis by (simp add: normal.simps)
    next
      case True
      have "m div 2 \<noteq> 0" using m True by presburger
      with "1.IH" [OF m True] obtain a f where
        n: "normal (m div 2) (e + 1) = Num a f" and le: "e + 1 \<le> f"
        and eq: "m div 2 = a * 2 ^ nat (f - (e + 1))" by blast
      have s: "nat (f - e) = Suc (nat (f - (e + 1)))" using le by simp
      have "m = 2 * (m div 2)" using True by simp
      also have "\<dots> = a * 2 ^ nat (f - e)"
        unfolding eq s by simp
      finally have "m = a * 2 ^ nat (f - e)" .
      moreover have "normal m e = Num a f"
        using m True n by (subst normal.simps) simp
      ultimately show ?thesis using le by auto
    qed
  qed
qed


lemma bitlen_pos: "n \<noteq> 0 \<Longrightarrow> 0 < bitlen n"
  by (subst bitlen.simps) simp

lemma round53_exact:
  assumes "0 \<le> e" and "\<bar>m\<bar> * 2 ^ nat e < 2 ^ 53"
  shows "round53 m e = normal (m * 2 ^ nat e) 0"
proof (cases "m = 0")
  case True
  then show ?thesis by (simp add: round53_def normal.simps)
next
  case False
  let ?L = "bitlen (nat \<bar>m\<bar>)"
  have nz: "nat \<bar>m\<bar> \<noteq> 0" using False by simp
  have "2 ^ (?L - 1) \<le> nat \<bar>m\<bar>" by (rule bitlen_lower [OF nz])
  then have "int (2 ^ (?L - 1)) \<le> int (nat \<bar>m\<bar>)"
    by (simp only: of_nat_le_iff)
  then have "(2::int) ^ (?L - 1) \<le> \<bar>m\<bar>"
    by simp
  then have "(2::int) ^ (?L - 1) * 2 ^ nat e \<le> \<bar>m\<bar> * 2 ^ nat e"
    by (rule mult_right_mono) simp
  then have "(2::int) ^ (?L - 1 + nat e) \<le> \<bar>m\<bar> * 2 ^ nat e"
    by (simp only: power_add)
  then have "(2::int) ^ (?L - 1 + nat e) < 2 ^ 53"
    using assms(2) by (rule le_less_trans)
  then have "?L - 1 + nat e < 53"
    by (rule power_less_imp_less_exp [rotated]) simp
  moreover have "0 < ?L" by (rule bitlen_pos [OF nz])
  ultimately have L: "int ?L + e \<le> 53"
    using assms(1) by linarith
  then have E: "max (int ?L - 1 + e) (- 1022) - 52 \<le> e"
    using assms(1) by simp
  have "round53 m e = normal m e"
    using False E L by (simp add: round53_def finish_def Let_def)
  also have "\<dots> = normal (m * 2 ^ nat e) 0"
    using assms(1) by (simp add: normal_shift)
  finally show ?thesis .
qed

lemma double_of_int_exact: "\<bar>k\<bar> < 2 ^ 53 \<Longrightarrow> double_of_int k = normal k 0"
  using round53_exact [of 0 k] by (simp add: double_of_int_def)

lemma normal_int: "\<exists>a j. normal k 0 = Num a j \<and> 0 \<le> j \<and> k = a * 2 ^ nat j"
proof (cases "k = 0")
  case True
  then show ?thesis by (simp add: normal.simps)
next
  case False
  with normal_decomp [of k 0] show ?thesis by auto
qed

lemma align:
  assumes "0 \<le> j" "0 \<le> l"
  shows "(a::int) * 2 ^ nat (j - min j l) * 2 ^ nat (min j l) = a * 2 ^ nat j"
proof -
  have "nat (j - min j l) + nat (min j l) = nat j"
    using assms by (cases "j \<le> l") (auto simp: min_def nat_diff_distrib)
  then have "(2::int) ^ nat (j - min j l) * 2 ^ nat (min j l) = 2 ^ nat j"
    by (simp only: power_add [symmetric])
  then show ?thesis by (simp only: mult.assoc)
qed

lemma int_value_normal: "int_value (normal k 0) = Some k"
  using normal_int [of k] by auto

lemma int_value_double_of_int: "\<bar>k\<bar> < 2 ^ 53 \<Longrightarrow> int_value (double_of_int k) = Some k"
  by (simp add: double_of_int_exact int_value_normal)

lemma int_valueE:
  assumes "int_value x = Some a"
  obtains m e where "x = Num m e" "0 \<le> e" "a = m * 2 ^ nat e"
  using assms by (cases x) (auto split: if_splits)

lemma num_mul_int:
  assumes "int_value x = Some a" "int_value y = Some b" "\<bar>a * b\<bar> < 2 ^ 53"
  shows "num_mul x y = normal (a * b) 0"
proof -
  from assms(1) obtain a' j where x: "x = Num a' j" "0 \<le> j" "a = a' * 2 ^ nat j"
    by (rule int_valueE)
  from assms(2) obtain b' l where y: "y = Num b' l" "0 \<le> l" "b = b' * 2 ^ nat l"
    by (rule int_valueE)
  have jl: "0 \<le> j + l" using x(2) y(2) by simp
  have v: "a' * b' * 2 ^ nat (j + l) = a * b"
    using x(2,3) y(2,3) by (simp add: nat_add_distrib power_add)
  have "\<bar>a' * b'\<bar> * 2 ^ nat (j + l) = \<bar>a' * b' * 2 ^ nat (j + l)\<bar>"
    by (simp only: abs_mult [of "a' * b'"] power_abs abs_numeral)
  then have "\<bar>a' * b'\<bar> * 2 ^ nat (j + l) < 2 ^ 53"
    using assms(3) by (simp only: v)
  from round53_exact [OF jl this] show ?thesis
    by (simp add: x(1) y(1) v)
qed

lemma num_add_int:
  assumes "int_value x = Some a" "int_value y = Some b" "\<bar>a + b\<bar> < 2 ^ 53"
  shows "num_add x y = normal (a + b) 0"
proof -
  from assms(1) obtain a' j where x: "x = Num a' j" "0 \<le> j" "a = a' * 2 ^ nat j"
    by (rule int_valueE)
  from assms(2) obtain b' l where y: "y = Num b' l" "0 \<le> l" "b = b' * 2 ^ nat l"
    by (rule int_valueE)
  let ?g = "min j l"
  let ?S = "a' * 2 ^ nat (j - ?g) + b' * 2 ^ nat (l - ?g)"
  have g: "0 \<le> ?g" using x(2) y(2) by simp
  have "?S * 2 ^ nat ?g = a' * 2 ^ nat (j - ?g) * 2 ^ nat ?g + b' * 2 ^ nat (l - ?g) * 2 ^ nat ?g"
    by (simp only: distrib_right)
  also have "\<dots> = a + b"
    using align [OF x(2) y(2), of a'] align [OF y(2) x(2), of b'] x(3) y(3)
    by (simp only: min.commute [of l j])
  finally have v: "?S * 2 ^ nat ?g = a + b" .
  have "\<bar>?S\<bar> * 2 ^ nat ?g = \<bar>?S * 2 ^ nat ?g\<bar>"
    by (simp only: abs_mult [of ?S] power_abs abs_numeral)
  then have "\<bar>?S\<bar> * 2 ^ nat ?g < 2 ^ 53"
    using assms(3) by (simp only: v)
  from round53_exact [OF g this] have "round53 ?S ?g = normal (a + b) 0"
    by (simp only: v)
  then show ?thesis
    by (simp add: x(1) y(1))
qed

lemma num_less_int:
  assumes "int_value x = Some a" "int_value y = Some b"
  shows "num_less x y \<longleftrightarrow> a < b" and "num_le x y \<longleftrightarrow> a \<le> b"
proof -
  from assms(1) obtain a' j where x: "x = Num a' j" "0 \<le> j" "a = a' * 2 ^ nat j"
    by (rule int_valueE)
  from assms(2) obtain b' l where y: "y = Num b' l" "0 \<le> l" "b = b' * 2 ^ nat l"
    by (rule int_valueE)
  let ?g = "min j l"
  let ?x = "a' * 2 ^ nat (j - ?g)"
  let ?y = "b' * 2 ^ nat (l - ?g)"
  have vx: "?x * 2 ^ nat ?g = a"
    using align [OF x(2) y(2), of a'] x(3) by simp
  have vy: "?y * 2 ^ nat ?g = b"
    using align [OF y(2) x(2), of b'] y(3) by (simp only: min.commute [of l j])
  have p: "(0::int) < 2 ^ nat ?g" by simp
  have "?x < ?y \<longleftrightarrow> ?x * 2 ^ nat ?g < ?y * 2 ^ nat ?g"
    using p by (simp only: mult_less_cancel_right_pos)
  then have l: "?x < ?y \<longleftrightarrow> a < b" by (simp only: vx vy)
  have "?x \<le> ?y \<longleftrightarrow> ?x * 2 ^ nat ?g \<le> ?y * 2 ^ nat ?g"
    using p by (simp only: mult_le_cancel_right_pos)
  then have le: "?x \<le> ?y \<longleftrightarrow> a \<le> b" by (simp only: vx vy)
  show "num_less x y \<longleftrightarrow> a < b"
    using l by (simp add: x(1) y(1))
  show "num_le x y \<longleftrightarrow> a \<le> b"
    using le by (simp add: x(1) y(1))
qed

text \<open>\<^verbatim>\<open>Date.now() + token.expires_in * 1000\<close> on a whole number of seconds, below \<open>2^53\<close>.\<close>

lemma expires_exact:
  assumes "token_expires_in token = Some x" "int_value x = Some n"
    and "\<bar>now w\<bar> < 2 ^ 53" "\<bar>n * 1000\<bar> < 2 ^ 53" "\<bar>now w + n * 1000\<bar> < 2 ^ 53"
  shows "expires (credentials_of token w) = normal (now w + n * 1000) 0"
proof -
  have "int_value (double_of_int 1000) = Some 1000"
    by (rule int_value_double_of_int) simp
  from num_mul_int [OF assms(2) this assms(4)]
  have "num_mul x (double_of_int 1000) = normal (n * 1000) 0" .
  moreover have "int_value (normal (n * 1000) 0) = Some (n * 1000)"
    by (rule int_value_normal)
  moreover have "int_value (double_of_int (now w)) = Some (now w)"
    using assms(3) by (rule int_value_double_of_int)
  ultimately have "num_add (double_of_int (now w)) (num_mul x (double_of_int 1000))
                   = normal (now w + n * 1000) 0"
    using num_add_int [of "double_of_int (now w)" "now w" "normal (n * 1000) 0" "n * 1000"]
      assms(5) by simp
  then show ?thesis
    by (simp add: credentials_of_def assms(1))
qed

section \<open>Credentials\<close>

lemma fst_requestDeviceToken:
  "fst (requestDeviceToken srv auth w)
     = read_device_token (token_endpoint srv (requests w) (device_token_request auth))"
  by (simp add: requestDeviceToken_def Let_def)

lemma poll_loop_token:
  assumes "poll_loop callbacks srv auth interval_ms expiresAt printedWaiting w
             = (Return (Some token), w')"
  shows "\<exists>res. log w' \<noteq> [] \<and> last (log w') = TokenExchange (device_token_request auth) res
             \<and> read_device_token res = Return (Some token)"
proof -
  let ?Q = "\<lambda>r. \<forall>t. fst r = Return (Some t) \<longrightarrow>
              (\<exists>res. log (snd r) \<noteq> []
                 \<and> last (log (snd r)) = TokenExchange (device_token_request auth) res
                 \<and> read_device_token res = Return (Some t))"
  have "?Q (poll_loop callbacks srv auth interval_ms expiresAt printedWaiting w)"
    by (rule poll_loop_rule [where I = "\<lambda>p w. True"])
       (simp_all add: log_requestDeviceToken fst_requestDeviceToken)
  then show ?thesis
    using assms by simp
qed

lemma login_returns:
  "loginKimiCode fuel callbacks srv w = (Some (Return c), w')
   \<Longrightarrow> \<exists>token rq res. c = credentials_of token w' \<and> log w' \<noteq> []
         \<and> last (log w') = TokenExchange rq res
         \<and> read_device_token res = Return (Some token)"
proof (induction fuel arbitrary: w)
  case 0
  then show ?case by simp
next
  case (Suc fuel)
  obtain r w1 where da: "requestDeviceAuthorization srv w = (r, w1)" by force
  show ?case
  proof (cases r)
    case (Throw e)
    with Suc.prems da show ?thesis by simp
  next
    case (Return auth)
    define w2 where "w2 = present_authorization auth w1"
    obtain r' w3 where pl: "poll_loop callbacks srv auth (max (interval auth) 1 * 1000)
                              (now w2 + expires_in auth * 1000) False w2 = (r', w3)"
      by force
    show ?thesis
    proof (cases r')
      case (Throw e)
      with Suc.prems da Return pl show ?thesis by (simp add: Let_def w2_def)
    next
      case R: (Return z)
      show ?thesis
      proof (cases z)
        case None
        with Suc.prems da Return pl R have "loginKimiCode fuel callbacks srv w3 = (Some (Return c), w')"
          by (simp add: Let_def w2_def)
        then show ?thesis by (rule Suc.IH)
      next
        case (Some token)
        with Suc.prems da Return pl R have "c = credentials_of token w3" "w' = w3"
          by (auto simp: Let_def w2_def)
        with poll_loop_token [OF pl [unfolded R Some]] show ?thesis by blast
      qed
    qed
  qed
qed

lemma refresh_returns:
  "refreshKimiCodeToken srv credentials w = (Return c, w')
   \<Longrightarrow> \<exists>token res. c = credentials_of token w' \<and> log w' \<noteq> []
         \<and> last (log w') = TokenExchange (refresh_token_request (refresh credentials)) res
         \<and> read_refreshed_token res = Return token"
  by (auto simp: refreshKimiCodeToken_def refreshAccessToken_def Let_def after_fetch_def emit_def
        split: outcome.splits)

text \<open>Evaluation of the concrete runs.\<close>

lemmas run_defs = requestDeviceAuthorization_def read_device_authorization_def
  requestDeviceToken_def read_device_token_def as_TokenResponse_def
  refreshKimiCodeToken_def refreshAccessToken_def read_refreshed_token_def
  device_authorization_request_def device_token_request_def refresh_token_request_def
  after_fetch_def emit_def progress_def note_waiting_def aborted_def signalled_def sleep_def
  timer_delay_def
  present_authorization_def credentials_of_def ok_def str_or_def num_or_def text_or_empty_def
  reply_def json_device_def json_token_def json_error_def json_empty_def world0_def
  server_const_def auth_dc1_def number_eval

lemma scenario1:
  "fst (loginKimiCode (Suc 0) callbacks0 server_fourth_poll world0)
     = Some (Return \<lparr>access = ''at1'', refresh = ''rt1'', expires = double_of_int 4615100\<rparr>)
   \<and> now (snd (loginKimiCode (Suc 0) callbacks0 server_fourth_poll world0)) = 1015100
   \<and> last (log (snd (loginKimiCode (Suc 0) callbacks0 server_fourth_poll world0)))
     = TokenExchange (device_token_request (auth_dc1 1800 5))
         (reply 200 (json_token (Some ''at1'') (Some ''rt1'') (Some 3600)))"
  by (simp add: poll_loop.simps run_defs server_fourth_poll_def callbacks0_def)

lemma refresh_run:
  "fst (refreshKimiCodeToken (server_expires_in x) credentials0 world0)
     = Return \<lparr>access = ''at2'', refresh = ''rt2'',
               expires = num_add (double_of_int 1000021) (num_mul x (double_of_int 1000))\<rparr>
   \<and> now (snd (refreshKimiCodeToken (server_expires_in x) credentials0 world0)) = 1000021
   \<and> last (log (snd (refreshKimiCodeToken (server_expires_in x) credentials0 world0)))
     = TokenExchange (refresh_token_request ''rt0'')
         (Resolved 21 \<lparr>status = 200, body_text = None,
            body_json = Some (json_token_number (Some ''at2'') (Some ''rt2'') (Some x))\<rparr>)"
  by (simp add: requestDeviceAuthorization_def refreshKimiCodeToken_def refreshAccessToken_def
        read_refreshed_token_def as_TokenResponse_def refresh_token_request_def after_fetch_def
        emit_def credentials_of_def ok_def json_token_number_def json_empty_def world0_def
        server_const_def server_expires_in_def credentials0_def)

lemma sums:
  "num_add (double_of_int 1000021) (num_mul (double_of_int 3600) (double_of_int 1000))
     = double_of_int 4600021"
  "num_add (double_of_int 1000021) (num_mul (double_of_int 9007199254741) (double_of_int 1000))
     = Num 2251799813935255 2"
  "num_add (double_of_int 1000021) (num_mul (Num 0 0) (double_of_int 1000))
     = double_of_int 1000021"
  "num_add (double_of_int 1000021) (num_mul (Num 1 (- 60)) (double_of_int 1000))
     = double_of_int 1000021"
  by (simp_all add: number_eval)

lemma token_3600:
  "read_device_token (reply 200 (json_token (Some ''at1'') (Some ''rt1'') (Some 3600)))
     = Return (Some \<lparr>access_token = ''at1'', refresh_token = ''rt1'',
                token_expires_in = Some (double_of_int 3600), scope = None, token_type = None\<rparr>)"
  "read_refreshed_token
     (Resolved 21 \<lparr>status = 200, body_text = None,
        body_json = Some (json_token_number (Some ''at2'') (Some ''rt2'') (Some x))\<rparr>)
     = Return \<lparr>access_token = ''at2'', refresh_token = ''rt2'',
                token_expires_in = Some x, scope = None, token_type = None\<rparr>"
  "int_value (double_of_int 3600) = Some 3600"
  by (simp_all add: read_device_token_def read_refreshed_token_def as_TokenResponse_def reply_def
        json_token_def json_token_number_def json_empty_def ok_def number_eval)

text \<open>
  C5, as the code has it. When \<^verbatim>\<open>loginKimiCode\<close> returns credentials, the last event is
  the token exchange whose response \<^verbatim>\<open>requestDeviceToken\<close> returned as token, and the
  credentials carry that token's \<^verbatim>\<open>access_token\<close> and \<^verbatim>\<open>refresh_token\<close>; with \<open>T\<close> the time
  at which the call returns, \<^verbatim>\<open>expires\<close> is the double \<open>T + expires_in * 1000\<close>, product and
  sum each rounded. When \<^verbatim>\<open>expires_in\<close> is a whole number \<open>n\<close> of seconds and \<open>T\<close>,
  \<open>n * 1000\<close> and \<open>T + n * 1000\<close> are below \<open>2^53\<close> in magnitude, \<^verbatim>\<open>expires\<close> is
  \<open>T + n * 1000\<close> exactly. The same holds of \<^verbatim>\<open>refreshKimiCodeToken\<close> and the token
  \<^verbatim>\<open>refreshAccessToken\<close> returned.
\<close>

theorem credentials_from_token_response:
  "(loginKimiCode fuel callbacks srv w = (Some (Return c), w')
      \<longrightarrow> (\<exists>token rq res. last (log w') = TokenExchange rq res
             \<and> read_device_token res = Return (Some token)
             \<and> access c = access_token token \<and> refresh c = refresh_token token
             \<and> expires c = num_add (double_of_int (now w'))
                               (num_mul (to_number (token_expires_in token)) (double_of_int 1000))
             \<and> (\<forall>x n. token_expires_in token = Some x \<and> int_value x = Some n
                      \<and> \<bar>now w'\<bar> < 2 ^ 53 \<and> \<bar>n * 1000\<bar> < 2 ^ 53
                      \<and> \<bar>now w' + n * 1000\<bar> < 2 ^ 53
                    \<longrightarrow> int_value (expires c) = Some (now w' + n * 1000))))
   \<and> (refreshKimiCodeToken srv credentials w = (Return c, w')
      \<longrightarrow> (\<exists>token res. last (log w') = TokenExchange (refresh_token_request (refresh credentials)) res
             \<and> read_refreshed_token res = Return token
             \<and> access c = access_token token \<and> refresh c = refresh_token token
             \<and> expires c = num_add (double_of_int (now w'))
                               (num_mul (to_number (token_expires_in token)) (double_of_int 1000))
             \<and> (\<forall>x n. token_expires_in token = Some x \<and> int_value x = Some n
                      \<and> \<bar>now w'\<bar> < 2 ^ 53 \<and> \<bar>n * 1000\<bar> < 2 ^ 53
                      \<and> \<bar>now w' + n * 1000\<bar> < 2 ^ 53
                    \<longrightarrow> int_value (expires c) = Some (now w' + n * 1000))))"
proof (intro conjI impI)
  assume "loginKimiCode fuel callbacks srv w = (Some (Return c), w')"
  from login_returns [OF this] obtain token rq res where
    c: "c = credentials_of token w'" and l: "last (log w') = TokenExchange rq res"
    and r: "read_device_token res = Return (Some token)" by blast
  have "int_value (expires c) = Some (now w' + n * 1000)"
    if "token_expires_in token = Some x" "int_value x = Some n" "\<bar>now w'\<bar> < 2 ^ 53"
      "\<bar>n * 1000\<bar> < 2 ^ 53" "\<bar>now w' + n * 1000\<bar> < 2 ^ 53" for x n
    using expires_exact [OF that] by (simp add: c int_value_normal)
  then show "\<exists>token rq res. last (log w') = TokenExchange rq res
             \<and> read_device_token res = Return (Some token)
             \<and> access c = access_token token \<and> refresh c = refresh_token token
             \<and> expires c = num_add (double_of_int (now w'))
                               (num_mul (to_number (token_expires_in token)) (double_of_int 1000))
             \<and> (\<forall>x n. token_expires_in token = Some x \<and> int_value x = Some n
                      \<and> \<bar>now w'\<bar> < 2 ^ 53 \<and> \<bar>n * 1000\<bar> < 2 ^ 53
                      \<and> \<bar>now w' + n * 1000\<bar> < 2 ^ 53
                    \<longrightarrow> int_value (expires c) = Some (now w' + n * 1000))"
    using l r by (intro exI [of _ token] exI [of _ rq] exI [of _ res])
      (simp add: c credentials_of_def)
next
  assume "refreshKimiCodeToken srv credentials w = (Return c, w')"
  from refresh_returns [OF this] obtain token res where
    c: "c = credentials_of token w'"
    and l: "last (log w') = TokenExchange (refresh_token_request (refresh credentials)) res"
    and r: "read_refreshed_token res = Return token" by blast
  have "int_value (expires c) = Some (now w' + n * 1000)"
    if "token_expires_in token = Some x" "int_value x = Some n" "\<bar>now w'\<bar> < 2 ^ 53"
      "\<bar>n * 1000\<bar> < 2 ^ 53" "\<bar>now w' + n * 1000\<bar> < 2 ^ 53" for x n
    using expires_exact [OF that] by (simp add: c int_value_normal)
  then show "\<exists>token res. last (log w') = TokenExchange (refresh_token_request (refresh credentials)) res
             \<and> read_refreshed_token res = Return token
             \<and> access c = access_token token \<and> refresh c = refresh_token token
             \<and> expires c = num_add (double_of_int (now w'))
                               (num_mul (to_number (token_expires_in token)) (double_of_int 1000))
             \<and> (\<forall>x n. token_expires_in token = Some x \<and> int_value x = Some n
                      \<and> \<bar>now w'\<bar> < 2 ^ 53 \<and> \<bar>n * 1000\<bar> < 2 ^ 53
                      \<and> \<bar>now w' + n * 1000\<bar> < 2 ^ 53
                    \<longrightarrow> int_value (expires c) = Some (now w' + n * 1000))"
    using l r by (intro exI [of _ token] exI [of _ res]) (simp add: c credentials_of_def)
qed

theorem credentials_from_token_response_witness:
  "loginKimiCode (Suc 0) callbacks0 server_fourth_poll world0
     = (Some (Return \<lparr>access = ''at1'', refresh = ''rt1'', expires = double_of_int 4615100\<rparr>),
        snd (loginKimiCode (Suc 0) callbacks0 server_fourth_poll world0))
   \<and> now (snd (loginKimiCode (Suc 0) callbacks0 server_fourth_poll world0)) = 1015100
   \<and> int_value (double_of_int 4615100) = Some (1015100 + 3600 * 1000)
   \<and> refreshKimiCodeToken (server_expires_in (double_of_int 3600)) credentials0 world0
     = (Return \<lparr>access = ''at2'', refresh = ''rt2'', expires = double_of_int 4600021\<rparr>,
        snd (refreshKimiCodeToken (server_expires_in (double_of_int 3600)) credentials0 world0))
   \<and> now (snd (refreshKimiCodeToken (server_expires_in (double_of_int 3600)) credentials0 world0))
     = 1000021
   \<and> int_value (double_of_int 4600021) = Some (1000021 + 3600 * 1000)
   \<and> (\<exists>token rq res.
         last (log (snd (loginKimiCode (Suc 0) callbacks0 server_fourth_poll world0)))
           = TokenExchange rq res
         \<and> read_device_token res = Return (Some token)
         \<and> access_token token = ''at1'' \<and> refresh_token token = ''rt1''
         \<and> token_expires_in token = Some (double_of_int 3600)
         \<and> int_value (double_of_int 3600) = Some 3600)
   \<and> (\<exists>token res.
         last (log (snd (refreshKimiCodeToken (server_expires_in (double_of_int 3600))
                           credentials0 world0)))
           = TokenExchange (refresh_token_request (refresh credentials0)) res
         \<and> read_refreshed_token res = Return token
         \<and> access_token token = ''at2'' \<and> refresh_token token = ''rt2''
         \<and> token_expires_in token = Some (double_of_int 3600))"
proof -
  let ?l = "loginKimiCode (Suc 0) callbacks0 server_fourth_poll world0"
  let ?r = "refreshKimiCodeToken (server_expires_in (double_of_int 3600)) credentials0 world0"
  let ?c = "\<lparr>access = ''at1'', refresh = ''rt1'', expires = double_of_int 4615100\<rparr>"
  let ?c' = "\<lparr>access = ''at2'', refresh = ''rt2'', expires = double_of_int 4600021\<rparr>"
  have l: "?l = (Some (Return ?c), snd ?l)"
    using scenario1 by (simp add: prod_eq_iff)
  have r: "?r = (Return ?c', snd ?r)"
    using refresh_run [of "double_of_int 3600"] sums(1) by (simp add: prod_eq_iff)
  have v: "int_value (double_of_int 4615100) = Some (1015100 + 3600 * 1000)"
    "int_value (double_of_int 4600021) = Some (1000021 + 3600 * 1000)"
    by (simp_all add: number_eval)
  show ?thesis
    using credentials_from_token_response
            [of "Suc 0" callbacks0 server_fourth_poll world0 ?c "snd ?l"]
          credentials_from_token_response
            [of _ _ "server_expires_in (double_of_int 3600)" world0 ?c' "snd ?r" credentials0]
          l r v scenario1 refresh_run [of "double_of_int 3600"] token_3600
    by (auto simp: credentials0_def)
qed

text \<open>
  C5 as stated has \<^verbatim>\<open>expires\<close> equal to \<open>T + n * 1000\<close> for every \<open>n\<close>. At
  \<open>n = 9007199254741\<close> and \<open>T = 1000021\<close> the sum 9007199255741021 is no double, and
  \<^verbatim>\<open>expires\<close> is the double next to it, 9007199255741020.
\<close>

theorem credentials_rounded_counterexample:
  "int_value (double_of_int 9007199254741) = Some 9007199254741
   \<and> fst (refreshKimiCodeToken (server_expires_in (double_of_int 9007199254741)) credentials0 world0)
     = Return \<lparr>access = ''at2'', refresh = ''rt2'', expires = Num 2251799813935255 2\<rparr>
   \<and> now (snd (refreshKimiCodeToken (server_expires_in (double_of_int 9007199254741))
                 credentials0 world0)) = 1000021
   \<and> int_value (Num 2251799813935255 2) = Some 9007199255741020
   \<and> (1000021::int) + 9007199254741 * 1000 = 9007199255741021"
  using refresh_run [of "double_of_int 9007199254741"] sums(2)
  by (simp add: number_eval)

text \<open>
  C6, as the code has it. Credentials built at time \<open>T\<close> from a token whose
  \<^verbatim>\<open>expires_in\<close> is a whole number \<open>n\<close> of seconds, not negative, with \<open>T\<close>, \<open>n * 1000\<close>
  and \<open>T + n * 1000\<close> below \<open>2^53\<close> in magnitude, have \<^verbatim>\<open>expires\<close> at \<open>T\<close> or later, and
  later than \<open>T\<close> when \<open>n\<close> is positive; on login and on refresh.
\<close>

theorem credentials_future:
  "(loginKimiCode fuel callbacks srv w = (Some (Return c), w')
      \<longrightarrow> (\<exists>token rq res. last (log w') = TokenExchange rq res
             \<and> read_device_token res = Return (Some token)
             \<and> (\<forall>x n. token_expires_in token = Some x \<and> int_value x = Some n \<and> 0 \<le> n
                      \<and> \<bar>now w'\<bar> < 2 ^ 53 \<and> \<bar>n * 1000\<bar> < 2 ^ 53
                      \<and> \<bar>now w' + n * 1000\<bar> < 2 ^ 53
                    \<longrightarrow> num_le (double_of_int (now w')) (expires c)
                        \<and> (0 < n \<longrightarrow> num_less (double_of_int (now w')) (expires c)))))
   \<and> (refreshKimiCodeToken srv credentials w = (Return c, w')
      \<longrightarrow> (\<exists>token res. last (log w') = TokenExchange (refresh_token_request (refresh credentials)) res
             \<and> read_refreshed_token res = Return token
             \<and> (\<forall>x n. token_expires_in token = Some x \<and> int_value x = Some n \<and> 0 \<le> n
                      \<and> \<bar>now w'\<bar> < 2 ^ 53 \<and> \<bar>n * 1000\<bar> < 2 ^ 53
                      \<and> \<bar>now w' + n * 1000\<bar> < 2 ^ 53
                    \<longrightarrow> num_le (double_of_int (now w')) (expires c)
                        \<and> (0 < n \<longrightarrow> num_less (double_of_int (now w')) (expires c)))))"
proof -
  have later: "num_le (double_of_int (now w')) (expires (credentials_of token w'))
               \<and> (0 < n \<longrightarrow> num_less (double_of_int (now w')) (expires (credentials_of token w')))"
    if "token_expires_in token = Some x" "int_value x = Some n" "0 \<le> n" "\<bar>now w'\<bar> < 2 ^ 53"
      "\<bar>n * 1000\<bar> < 2 ^ 53" "\<bar>now w' + n * 1000\<bar> < 2 ^ 53" for token x n
  proof -
    have e: "int_value (expires (credentials_of token w')) = Some (now w' + n * 1000)"
      using expires_exact [OF that(1,2,4,5,6)] by (simp add: int_value_normal)
    have t: "int_value (double_of_int (now w')) = Some (now w')"
      using that(4) by (rule int_value_double_of_int)
    show ?thesis
      using num_less_int [OF t e] that(3) by simp
  qed
  show ?thesis
  proof (intro conjI impI)
    assume "loginKimiCode fuel callbacks srv w = (Some (Return c), w')"
    from login_returns [OF this] obtain token rq res where
      c: "c = credentials_of token w'" and l: "last (log w') = TokenExchange rq res"
      and r: "read_device_token res = Return (Some token)" by blast
    show "\<exists>token rq res. last (log w') = TokenExchange rq res
             \<and> read_device_token res = Return (Some token)
             \<and> (\<forall>x n. token_expires_in token = Some x \<and> int_value x = Some n \<and> 0 \<le> n
                      \<and> \<bar>now w'\<bar> < 2 ^ 53 \<and> \<bar>n * 1000\<bar> < 2 ^ 53
                      \<and> \<bar>now w' + n * 1000\<bar> < 2 ^ 53
                    \<longrightarrow> num_le (double_of_int (now w')) (expires c)
                        \<and> (0 < n \<longrightarrow> num_less (double_of_int (now w')) (expires c)))"
      using l r later [of token] unfolding c
      by (intro exI [of _ token] exI [of _ rq] exI [of _ res]) blast
  next
    assume "refreshKimiCodeToken srv credentials w = (Return c, w')"
    from refresh_returns [OF this] obtain token res where
      c: "c = credentials_of token w'"
      and l: "last (log w') = TokenExchange (refresh_token_request (refresh credentials)) res"
      and r: "read_refreshed_token res = Return token" by blast
    show "\<exists>token res. last (log w') = TokenExchange (refresh_token_request (refresh credentials)) res
             \<and> read_refreshed_token res = Return token
             \<and> (\<forall>x n. token_expires_in token = Some x \<and> int_value x = Some n \<and> 0 \<le> n
                      \<and> \<bar>now w'\<bar> < 2 ^ 53 \<and> \<bar>n * 1000\<bar> < 2 ^ 53
                      \<and> \<bar>now w' + n * 1000\<bar> < 2 ^ 53
                    \<longrightarrow> num_le (double_of_int (now w')) (expires c)
                        \<and> (0 < n \<longrightarrow> num_less (double_of_int (now w')) (expires c)))"
      using l r later [of token] unfolding c
      by (intro exI [of _ token] exI [of _ res]) blast
  qed
qed

theorem credentials_future_witness:
  "loginKimiCode (Suc 0) callbacks0 server_fourth_poll world0
     = (Some (Return \<lparr>access = ''at1'', refresh = ''rt1'', expires = double_of_int 4615100\<rparr>),
        snd (loginKimiCode (Suc 0) callbacks0 server_fourth_poll world0))
   \<and> now (snd (loginKimiCode (Suc 0) callbacks0 server_fourth_poll world0)) = 1015100
   \<and> num_less (double_of_int 1015100) (double_of_int 4615100)
   \<and> refreshKimiCodeToken (server_expires_in (Num 0 0)) credentials0 world0
     = (Return \<lparr>access = ''at2'', refresh = ''rt2'', expires = double_of_int 1000021\<rparr>,
        snd (refreshKimiCodeToken (server_expires_in (Num 0 0)) credentials0 world0))
   \<and> now (snd (refreshKimiCodeToken (server_expires_in (Num 0 0)) credentials0 world0)) = 1000021
   \<and> num_le (double_of_int 1000021) (double_of_int 1000021)
   \<and> (\<exists>token rq res.
         last (log (snd (loginKimiCode (Suc 0) callbacks0 server_fourth_poll world0)))
           = TokenExchange rq res
         \<and> read_device_token res = Return (Some token)
         \<and> token_expires_in token = Some (double_of_int 3600)
         \<and> int_value (double_of_int 3600) = Some 3600 \<and> (0::int) < 3600)
   \<and> (\<exists>token res.
         last (log (snd (refreshKimiCodeToken (server_expires_in (Num 0 0)) credentials0 world0)))
           = TokenExchange (refresh_token_request (refresh credentials0)) res
         \<and> read_refreshed_token res = Return token
         \<and> token_expires_in token = Some (Num 0 0)
         \<and> int_value (Num 0 0) = Some 0 \<and> (0::int) \<le> 0)"
proof -
  let ?l = "loginKimiCode (Suc 0) callbacks0 server_fourth_poll world0"
  let ?r = "refreshKimiCodeToken (server_expires_in (Num 0 0)) credentials0 world0"
  let ?c = "\<lparr>access = ''at1'', refresh = ''rt1'', expires = double_of_int 4615100\<rparr>"
  let ?c' = "\<lparr>access = ''at2'', refresh = ''rt2'', expires = double_of_int 1000021\<rparr>"
  have l: "?l = (Some (Return ?c), snd ?l)"
    using scenario1 by (simp add: prod_eq_iff)
  have r: "?r = (Return ?c', snd ?r)"
    using refresh_run [of "Num 0 0"] sums(3) by (simp add: prod_eq_iff)
  have v: "num_less (double_of_int 1015100) (double_of_int 4615100)"
    "num_le (double_of_int 1000021) (double_of_int 1000021)"
    by (simp_all add: number_eval)
  show ?thesis
    using credentials_future [of "Suc 0" callbacks0 server_fourth_poll world0 ?c "snd ?l"]
          credentials_future [of _ _ "server_expires_in (Num 0 0)" world0 ?c' "snd ?r" credentials0]
          l r v scenario1 refresh_run [of "Num 0 0"] token_3600
    by (auto simp: credentials0_def)
qed

text \<open>
  C6 as stated asks for \<^verbatim>\<open>expires\<close> later than \<open>T\<close> whenever \<^verbatim>\<open>expires_in\<close> is not
  negative. With \<^verbatim>\<open>expires_in = 0\<close> the credentials expire at \<open>T\<close> itself, and so they do
  with the positive lifetime \<open>2^-60\<close>, which the sum absorbs.
\<close>

theorem credentials_expire_at_once_counterexample:
  "num_le (Num 0 0) (Num 0 0)
   \<and> fst (refreshKimiCodeToken (server_expires_in (Num 0 0)) credentials0 world0)
     = Return \<lparr>access = ''at2'', refresh = ''rt2'', expires = double_of_int 1000021\<rparr>
   \<and> now (snd (refreshKimiCodeToken (server_expires_in (Num 0 0)) credentials0 world0)) = 1000021
   \<and> \<not> num_less (double_of_int 1000021) (double_of_int 1000021)
   \<and> num_less (Num 0 0) (Num 1 (- 60))
   \<and> fst (refreshKimiCodeToken (server_expires_in (Num 1 (- 60))) credentials0 world0)
     = Return \<lparr>access = ''at2'', refresh = ''rt2'', expires = double_of_int 1000021\<rparr>"
  using refresh_run [of "Num 0 0"] refresh_run [of "Num 1 (- 60)"] sums(3,4)
  by (simp add: number_eval)

section \<open>Traces\<close>

lemma run_monitor_append:
  "run_monitor step s (xs @ ys)
     = (case run_monitor step s xs of None \<Rightarrow> None | Some s' \<Rightarrow> run_monitor step s' ys)"
  by (induction xs arbitrary: s) (auto split: option.splits)

lemma run_monitor_snoc:
  "run_monitor step s (xs @ [e])
     = (case run_monitor step s xs of None \<Rightarrow> None | Some s' \<Rightarrow> step s' e)"
  by (simp add: run_monitor_append split: option.splits)

lemma log_progress:
  "log (progress callbacks msg w) = log w @ (if onProgress callbacks then [OnProgress msg] else [])"
  by (simp add: progress_def emit_def)

lemma log_note_waiting:
  "log (note_waiting callbacks p w)
     = log w @ (if \<not> p \<and> onProgress callbacks
                then [OnProgress ''Waiting for authorization...''] else [])"
  by (simp add: note_waiting_def log_progress)

lemma log_sleep: "log (sleep ms w) = log w @ [SetTimeout ms]"
  by (simp add: sleep_def emit_def)

lemma log_present_authorization:
  "log (present_authorization auth w)
     = log w @ [OnAuth (verification_uri_complete auth)
                 (''Please visit the URL to authorize. Your code: '' @ user_code auth)]"
  by (simp add: present_authorization_def emit_def)

lemma log_requestDeviceAuthorization:
  "log (snd (requestDeviceAuthorization srv w))
     = log w @ [DeviceAuthorizationExchange device_authorization_request
                  (device_authorization_endpoint srv (requests w) device_authorization_request)]"
  by (simp add: requestDeviceAuthorization_def Let_def after_fetch_def emit_def)

lemma fst_requestDeviceAuthorization:
  "fst (requestDeviceAuthorization srv w)
     = read_device_authorization
         (device_authorization_endpoint srv (requests w) device_authorization_request)"
  by (simp add: requestDeviceAuthorization_def Let_def)

lemma now_requestDeviceToken:
  "now (snd (requestDeviceToken srv auth w))
     = now w + int (latency (token_endpoint srv (requests w) (device_token_request auth)))"
  by (simp add: requestDeviceToken_def Let_def after_fetch_def emit_def)

lemma now_requestDeviceAuthorization:
  "now (snd (requestDeviceAuthorization srv w))
     = now w + int (latency (device_authorization_endpoint srv (requests w)
                               device_authorization_request))"
  by (simp add: requestDeviceAuthorization_def Let_def after_fetch_def emit_def)

lemma now_progress [simp]: "now (progress callbacks msg w) = now w"
  by (simp add: progress_def emit_def)

lemma now_note_waiting [simp]: "now (note_waiting callbacks p w) = now w"
  by (simp add: note_waiting_def)

lemma now_sleep [simp]: "now (sleep ms w) = now w + timer_delay ms"
  by (simp add: sleep_def emit_def)

lemma now_present_authorization [simp]: "now (present_authorization auth w) = now w"
  by (simp add: present_authorization_def emit_def)

text \<open>
  A rule for \<^verbatim>\<open>loginKimiCode\<close>: an invariant \<open>J\<close> of the head of the outer loop that a
  restart keeps, and a property \<open>R\<close> of the outcome that every way out establishes.
\<close>

lemma loginKimiCode_rule:
  assumes init: "J w"
    and stop: "\<And>w. J w \<Longrightarrow> R (None, w)"
    and refused: "\<And>w e. J w \<Longrightarrow> fst (requestDeviceAuthorization srv w) = Throw e
        \<Longrightarrow> R (Some (Throw e), snd (requestDeviceAuthorization srv w))"
    and thrown: "\<And>w auth e. J w \<Longrightarrow> fst (requestDeviceAuthorization srv w) = Return auth
        \<Longrightarrow> fst (poll_device_code callbacks srv auth (snd (requestDeviceAuthorization srv w)))
              = Throw e
        \<Longrightarrow> R (Some (Throw e),
               snd (poll_device_code callbacks srv auth (snd (requestDeviceAuthorization srv w))))"
    and granted: "\<And>w auth t. J w \<Longrightarrow> fst (requestDeviceAuthorization srv w) = Return auth
        \<Longrightarrow> fst (poll_device_code callbacks srv auth (snd (requestDeviceAuthorization srv w)))
              = Return (Some t)
        \<Longrightarrow> R (Some (Return (credentials_of t
                 (snd (poll_device_code callbacks srv auth
                         (snd (requestDeviceAuthorization srv w)))))),
               snd (poll_device_code callbacks srv auth (snd (requestDeviceAuthorization srv w))))"
    and restart: "\<And>w auth. J w \<Longrightarrow> fst (requestDeviceAuthorization srv w) = Return auth
        \<Longrightarrow> fst (poll_device_code callbacks srv auth (snd (requestDeviceAuthorization srv w)))
              = Return None
        \<Longrightarrow> J (snd (poll_device_code callbacks srv auth
                       (snd (requestDeviceAuthorization srv w))))"
  shows "R (loginKimiCode fuel callbacks srv w)"
  using init
proof (induction fuel arbitrary: w)
  case 0
  then show ?case by (simp add: stop)
next
  case (Suc fuel)
  obtain r w1 where da: "requestDeviceAuthorization srv w = (r, w1)" by force
  show ?case
  proof (cases r)
    case (Throw e)
    then show ?thesis
      using refused [OF Suc.prems, of e] da by simp
  next
    case (Return auth)
    obtain r' w3 where pl: "poll_device_code callbacks srv auth w1 = (r', w3)" by force
    then have pl': "poll_loop callbacks srv auth (max (interval auth) 1 * 1000)
       (now (present_authorization auth w1) + expires_in auth * 1000) False
       (present_authorization auth w1) = (r', w3)"
      by (simp add: poll_device_code_def)
    show ?thesis
    proof (cases r')
      case (Throw e)
      then show ?thesis
        using thrown [OF Suc.prems, of auth e] da Return pl pl' by (simp add: Let_def)
    next
      case R: (Return z)
      show ?thesis
      proof (cases z)
        case (Some t)
        then show ?thesis
          using granted [OF Suc.prems, of auth t] da Return pl pl' R by (simp add: Let_def)
      next
        case None
        have "J w3"
          using restart [OF Suc.prems, of auth] da Return pl R None by simp
        from Suc.IH [OF this] show ?thesis
          using da Return pl' R None by (simp add: Let_def)
      qed
    qed
  qed
qed

section \<open>Cancellation\<close>

lemma read_device_token_not_abort:
  "read_device_token res \<noteq> Throw (Error ''Authorization aborted'')"
  by (simp add: read_device_token_def split: fetch_result.splits option.splits)

lemma read_device_authorization_not_abort:
  "read_device_authorization res \<noteq> Throw (Error ''Authorization aborted'')"
  by (simp add: read_device_authorization_def split: fetch_result.splits option.splits)

lemma poll_loop_abort:
  assumes "run_monitor (abort_step callbacks) s0 (log w) = Some (now w, False)"
  shows "\<exists>halted. run_monitor (abort_step callbacks) s0
            (log (snd (poll_loop callbacks srv auth interval_ms expiresAt printedWaiting w)))
          = Some (now (snd (poll_loop callbacks srv auth interval_ms expiresAt printedWaiting w)),
                  halted)
          \<and> (halted \<longleftrightarrow> fst (poll_loop callbacks srv auth interval_ms expiresAt printedWaiting w)
                           = Throw (Error ''Authorization aborted''))"
proof -
  let ?I = "\<lambda>(p::bool) w. run_monitor (abort_step callbacks) s0 (log w) = Some (now w, False)"
  let ?Q = "\<lambda>r. \<exists>halted. run_monitor (abort_step callbacks) s0 (log (snd r))
                          = Some (now (snd r), halted)
                 \<and> (halted \<longleftrightarrow> fst r = Throw (Error ''Authorization aborted''))"
  show ?thesis
  proof (rule poll_loop_rule [where I = ?I and Q = ?Q])
    show "?I printedWaiting w" by (rule assms)
  next
    fix p w e
    assume "?I p w" "fst (requestDeviceToken srv auth w) = Throw e" "\<not> is_expired_token e"
    then show "?Q (Throw e, snd (requestDeviceToken srv auth w))"
      using read_device_token_not_abort
      by (auto simp: log_requestDeviceToken fst_requestDeviceToken run_monitor_append
            now_requestDeviceToken)
  qed (auto simp: log_requestDeviceToken fst_requestDeviceToken log_note_waiting log_sleep
         log_progress run_monitor_append now_requestDeviceToken aborted_def)
qed

lemma login_abort:
  assumes "run_monitor (abort_step callbacks) s0 (log w) = Some (now w, False)"
  shows "\<exists>halted. run_monitor (abort_step callbacks) s0
            (log (snd (loginKimiCode fuel callbacks srv w)))
          = Some (now (snd (loginKimiCode fuel callbacks srv w)), halted)
          \<and> (halted \<longleftrightarrow> fst (loginKimiCode fuel callbacks srv w)
                           = Some (Throw (Error ''Authorization aborted'')))"
proof -
  let ?J = "\<lambda>w. run_monitor (abort_step callbacks) s0 (log w) = Some (now w, False)"
  let ?R = "\<lambda>r. \<exists>halted. run_monitor (abort_step callbacks) s0 (log (snd r))
                          = Some (now (snd r), halted)
                 \<and> (halted \<longleftrightarrow> fst r = Some (Throw (Error ''Authorization aborted'')))"
  have after_da: "\<exists>halted. run_monitor (abort_step callbacks) s0
            (log (snd (poll_device_code callbacks srv auth (snd (requestDeviceAuthorization srv w)))))
          = Some (now (snd (poll_device_code callbacks srv auth
                              (snd (requestDeviceAuthorization srv w)))), halted)
          \<and> (halted \<longleftrightarrow> fst (poll_device_code callbacks srv auth
                                 (snd (requestDeviceAuthorization srv w)))
                           = Throw (Error ''Authorization aborted''))"
    if "?J w" for w auth
  proof -
    have "?J (present_authorization auth (snd (requestDeviceAuthorization srv w)))"
      using that
      by (simp add: log_requestDeviceAuthorization run_monitor_append
            log_present_authorization now_requestDeviceAuthorization)
    from poll_loop_abort [OF this] show ?thesis
      by (simp add: poll_device_code_def)
  qed
  show ?thesis
  proof (rule loginKimiCode_rule [where J = ?J and R = ?R])
    show "?J w" by (rule assms)
  next
    fix w e
    assume "?J w" "fst (requestDeviceAuthorization srv w) = Throw e"
    then show "?R (Some (Throw e), snd (requestDeviceAuthorization srv w))"
      using read_device_authorization_not_abort
      by (auto simp: log_requestDeviceAuthorization run_monitor_append
            now_requestDeviceAuthorization fst_requestDeviceAuthorization)
  next
    fix w auth e
    assume "?J w"
      and "fst (poll_device_code callbacks srv auth (snd (requestDeviceAuthorization srv w)))
             = Throw e"
    with after_da [of w auth]
    show "?R (Some (Throw e),
               snd (poll_device_code callbacks srv auth (snd (requestDeviceAuthorization srv w))))"
      by auto
  next
    fix w auth t
    assume "?J w"
      and "fst (poll_device_code callbacks srv auth (snd (requestDeviceAuthorization srv w)))
             = Return (Some t)"
    with after_da [of w auth]
    show "?R (Some (Return (credentials_of t
                 (snd (poll_device_code callbacks srv auth
                         (snd (requestDeviceAuthorization srv w)))))),
               snd (poll_device_code callbacks srv auth (snd (requestDeviceAuthorization srv w))))"
      by auto
  next
    fix w auth
    assume "?J w"
      and "fst (poll_device_code callbacks srv auth (snd (requestDeviceAuthorization srv w)))
             = Return None"
    with after_da [of w auth]
    show "?J (snd (poll_device_code callbacks srv auth (snd (requestDeviceAuthorization srv w))))"
      by auto
  qed auto
qed

text \<open>The monitor does reject: a poll, or a timer, after a pending poll that saw the signal.\<close>

lemma abort_step_rejects:
  "run_monitor (abort_step (callbacks_abort_at 1002000)) (1005040, False)
     [TokenExchange rq (reply 400 (json_error ''authorization_pending'')),
      OnProgress ''Waiting for authorization...'',
      TokenExchange rq (reply 400 (json_error ''authorization_pending''))] = None"
  "run_monitor (abort_step (callbacks_abort_at 1002000)) (1005040, False)
     [TokenExchange rq (reply 400 (json_error ''authorization_pending'')),
      SetTimeout 5000] = None"
  "run_monitor (abort_step (callbacks_abort_at 1002000)) (1000020, False)
     [TokenExchange rq (reply 400 (json_error ''authorization_pending'')),
      SetTimeout 5000] = Some (1005040, False)"
  by (simp_all add: read_device_token_def reply_def json_error_def json_empty_def
        callbacks_abort_at_def signalled_def timer_delay_def)

lemma scenario_abort:
  "fst (loginKimiCode (Suc 0) (callbacks_abort_at 1002000) server_no_times world0)
     = Some (Throw (Error ''Authorization aborted''))
   \<and> now (snd (loginKimiCode (Suc 0) (callbacks_abort_at 1002000) server_no_times world0))
     = 1005060
   \<and> device_codes_sent
        (snd (loginKimiCode (Suc 0) (callbacks_abort_at 1002000) server_no_times world0))
     = [Some ''dc1'', Some ''dc1'']"
  by (simp add: poll_loop.simps run_defs server_no_times_def callbacks_abort_at_def
        device_codes_sent_def)

text \<open>
  C1, as the code has it. The polling loop reads the host's cancellation signal once per
  iteration, after the token exchange and only when that exchange was answered
  \<^verbatim>\<open>authorization_pending\<close>, before it sleeps. In every run of \<^verbatim>\<open>loginKimiCode\<close>, once a
  pending poll completes while the signal is set, no request is issued and no timer set
  any more (the log passes the cancellation monitor), and the call fails with the
  \<^verbatim>\<open>Authorization aborted\<close> error exactly when the run ends in that way.
\<close>

theorem abort_after_pending_poll:
  "run_monitor (abort_step callbacks) s0 (log w) = Some (now w, False)
   \<longrightarrow> (\<exists>halted.
          run_monitor (abort_step callbacks) s0 (log (snd (loginKimiCode fuel callbacks srv w)))
            = Some (now (snd (loginKimiCode fuel callbacks srv w)), halted)
          \<and> (halted \<longleftrightarrow> fst (loginKimiCode fuel callbacks srv w)
                           = Some (Throw (Error ''Authorization aborted''))))"
  using login_abort [of callbacks s0 w fuel srv] by blast

theorem abort_after_pending_poll_witness:
  "run_monitor (abort_step (callbacks_abort_at 1002000)) (1000000, False) (log world0)
     = Some (now world0, False)
   \<and> run_monitor (abort_step (callbacks_abort_at 1002000)) (1000000, False)
        (log (snd (loginKimiCode (Suc 0) (callbacks_abort_at 1002000) server_no_times world0)))
     = Some (1005060, True)
   \<and> fst (loginKimiCode (Suc 0) (callbacks_abort_at 1002000) server_no_times world0)
     = Some (Throw (Error ''Authorization aborted''))"
proof -
  have m: "run_monitor (abort_step (callbacks_abort_at 1002000)) (1000000, False) (log world0)
             = Some (now world0, False)"
    by (simp add: world0_def)
  show ?thesis
    using abort_after_pending_poll
            [of "callbacks_abort_at 1002000" "(1000000, False)" world0 "Suc 0" server_no_times]
          m scenario_abort
    by auto
qed

text \<open>
  C1 as stated has the signal read before each token exchange. Here the first poll
  completes at 1000040 and a timer of 5000 ms is set; the host cancels at 1002000, while
  the loop sleeps; at 1005040 the loop issues the second token exchange all the same, which
  is granted, and the call returns credentials.
\<close>

theorem cancel_between_polls_counterexample:
  "\<not> signalled (callbacks_abort_at 1002000) 1000040
   \<and> signalled (callbacks_abort_at 1002000) 1002000
   \<and> signalled (callbacks_abort_at 1002000) 1005040
   \<and> loginKimiCode (Suc 0) (callbacks_abort_at 1002000) server_second_poll world0
     = (Some (Return \<lparr>access = ''at1'', refresh = ''rt1'', expires = double_of_int 4605060\<rparr>),
        \<lparr>now = 1005060, requests = 3,
         log = [DeviceAuthorizationExchange device_authorization_request
                  (reply 200 (json_device ''dc1'' (Some 1800) (Some 5))),
                OnAuth ''https://auth.kimi.com/activate?code=ABCD-1234''
                  ''Please visit the URL to authorize. Your code: ABCD-1234'',
                TokenExchange (device_token_request (auth_dc1 1800 5))
                  (reply 400 (json_error ''authorization_pending'')),
                OnProgress ''Waiting for authorization...'',
                SetTimeout 5000,
                TokenExchange (device_token_request (auth_dc1 1800 5))
                  (reply 200 (json_token (Some ''at1'') (Some ''rt1'') (Some 3600)))]\<rparr>)"
  by (simp add: poll_loop.simps run_defs server_second_poll_def callbacks_abort_at_def)

section \<open>Pacing of the polls\<close>

lemma timer_delay_wait_ms: "timer_delay (max (interval auth) 1 * 1000) = wait_ms auth"
  by (simp add: timer_delay_def wait_ms_def)

lemma poll_loop_pace:
  assumes "run_monitor pace_step s0 (log w) = Some (now w, Some auth, due)"
    and "due = None \<or> due = Some (now w)"
  shows "\<exists>cur due'. run_monitor pace_step s0
            (log (snd (poll_loop callbacks srv auth (max (interval auth) 1 * 1000)
                         expiresAt printedWaiting w)))
          = Some (now (snd (poll_loop callbacks srv auth (max (interval auth) 1 * 1000)
                         expiresAt printedWaiting w)), cur, due')
          \<and> (due' = None
              \<or> due' = Some (now (snd (poll_loop callbacks srv auth (max (interval auth) 1 * 1000)
                                         expiresAt printedWaiting w)))
              \<or> (\<exists>e. fst (poll_loop callbacks srv auth (max (interval auth) 1 * 1000)
                               expiresAt printedWaiting w) = Throw e))"
proof -
  let ?I = "\<lambda>(p::bool) w. \<exists>due. run_monitor pace_step s0 (log w) = Some (now w, Some auth, due)
                          \<and> (due = None \<or> due = Some (now w))"
  let ?Q = "\<lambda>r. \<exists>cur due'. run_monitor pace_step s0 (log (snd r)) = Some (now (snd r), cur, due')
                 \<and> (due' = None \<or> due' = Some (now (snd r)) \<or> (\<exists>e. fst r = Throw e))"
  show ?thesis
  proof (rule poll_loop_rule [where I = ?I and Q = ?Q])
    show "?I printedWaiting w" using assms by blast
  qed (auto simp: log_requestDeviceToken fst_requestDeviceToken log_note_waiting log_sleep
         log_progress run_monitor_append now_requestDeviceToken timer_delay_wait_ms)
qed

lemma poll_device_code_pace:
  assumes "run_monitor pace_step s0 (log w1) = Some (now w1, Some auth, None)"
  shows "\<exists>cur due. run_monitor pace_step s0 (log (snd (poll_device_code callbacks srv auth w1)))
                      = Some (now (snd (poll_device_code callbacks srv auth w1)), cur, due)
          \<and> (due = None \<or> due = Some (now (snd (poll_device_code callbacks srv auth w1)))
              \<or> (\<exists>e. fst (poll_device_code callbacks srv auth w1) = Throw e))"
proof -
  have "run_monitor pace_step s0 (log (present_authorization auth w1))
          = Some (now (present_authorization auth w1), Some auth, None)"
    using assms by (simp add: log_present_authorization run_monitor_append)
  from poll_loop_pace [OF this] show ?thesis
    by (simp add: poll_device_code_def)
qed

lemma login_pace:
  assumes "run_monitor pace_step s0 (log w) = Some (now w, cur, due)"
    and "due = None \<or> due = Some (now w)"
  shows "\<exists>cur' due'. run_monitor pace_step s0 (log (snd (loginKimiCode fuel callbacks srv w)))
           = Some (now (snd (loginKimiCode fuel callbacks srv w)), cur', due')"
proof -
  let ?J = "\<lambda>w. \<exists>cur due. run_monitor pace_step s0 (log w) = Some (now w, cur, due)
                     \<and> (due = None \<or> due = Some (now w))"
  let ?R = "\<lambda>r. \<exists>cur due. run_monitor pace_step s0 (log (snd r)) = Some (now (snd r), cur, due)"
  have after_da: "run_monitor pace_step s0 (log (snd (requestDeviceAuthorization srv w)))
                    = Some (now (snd (requestDeviceAuthorization srv w)), Some auth, None)"
    if "?J w" "fst (requestDeviceAuthorization srv w) = Return auth" for w auth
    using that
    by (auto simp: log_requestDeviceAuthorization run_monitor_append fst_requestDeviceAuthorization
          now_requestDeviceAuthorization)
  show ?thesis
  proof (rule loginKimiCode_rule [where J = ?J and R = ?R])
    show "?J w" using assms by blast
  next
    fix w e
    assume "?J w" "fst (requestDeviceAuthorization srv w) = Throw e"
    then show "?R (Some (Throw e), snd (requestDeviceAuthorization srv w))"
      by (auto simp: log_requestDeviceAuthorization run_monitor_append
            now_requestDeviceAuthorization)
  next
    fix w auth e
    assume "?J w" "fst (requestDeviceAuthorization srv w) = Return auth"
    from poll_device_code_pace [OF after_da [OF this], of callbacks srv]
    show "?R (Some (Throw e),
               snd (poll_device_code callbacks srv auth (snd (requestDeviceAuthorization srv w))))"
      by auto
  next
    fix w auth t
    assume "?J w" "fst (requestDeviceAuthorization srv w) = Return auth"
    from poll_device_code_pace [OF after_da [OF this], of callbacks srv]
    show "?R (Some (Return (credentials_of t
                 (snd (poll_device_code callbacks srv auth
                         (snd (requestDeviceAuthorization srv w)))))),
               snd (poll_device_code callbacks srv auth (snd (requestDeviceAuthorization srv w))))"
      by auto
  next
    fix w auth
    assume "?J w" "fst (requestDeviceAuthorization srv w) = Return auth"
      and "fst (poll_device_code callbacks srv auth (snd (requestDeviceAuthorization srv w)))
             = Return None"
    with poll_device_code_pace [OF after_da [OF this(1,2)], of callbacks srv]
    show "?J (snd (poll_device_code callbacks srv auth (snd (requestDeviceAuthorization srv w))))"
      by auto
  qed auto
qed

text \<open>
  The monitor does reject: a second poll right after a pending one, and a poll after too
  short a sleep.
\<close>

lemma pace_step_rejects:
  "run_monitor pace_step (1000020, Some (auth_dc1 1800 5), None)
     [TokenExchange rq (reply 400 (json_error ''authorization_pending'')),
      TokenExchange rq (reply 400 (json_error ''authorization_pending''))] = None"
  "run_monitor pace_step (1000020, Some (auth_dc1 1800 5), None)
     [TokenExchange rq (reply 400 (json_error ''authorization_pending'')),
      SetTimeout 1000,
      TokenExchange rq (reply 400 (json_error ''authorization_pending''))] = None"
  "run_monitor pace_step (1000020, Some (auth_dc1 1800 5), None)
     [TokenExchange rq (reply 400 (json_error ''authorization_pending'')),
      SetTimeout 5000,
      TokenExchange rq (reply 400 (json_error ''authorization_pending''))]
   = Some (1005060, Some (auth_dc1 1800 5), Some 1010060)"
  by (simp_all add: read_device_token_def reply_def json_error_def json_empty_def auth_dc1_def
        wait_ms_def timer_delay_def)

text \<open>
  C7, as the code has it. A poll answered with status 400 and the error code
  \<^verbatim>\<open>authorization_pending\<close> makes \<^verbatim>\<open>requestDeviceToken\<close> return no token, without an
  exception. In every run of \<^verbatim>\<open>loginKimiCode\<close>, however long, the log passes the pacing
  monitor, and the clock that the monitor works out from the latencies of the exchanges
  and the delays of the timers is the clock of the run: after a pending poll the next
  request leaves exactly when the timer of \<open>max interval 1 * 1000\<close> milliseconds fires,
  which is \<open>max interval 1\<close> seconds after the poll when that many milliseconds are at most
  \<open>2\<^sup>3\<^sup>1 - 1\<close>, and one millisecond after the poll when they are more.
\<close>

theorem pending_then_sleep:
  "(token_endpoint srv (requests w) (device_token_request auth) = Resolved ms response
      \<and> status response = 400 \<and> body_json response = Some data
      \<and> j_error data = Some ''authorization_pending''
     \<longrightarrow> fst (requestDeviceToken srv auth w) = Return None)
   \<and> (run_monitor pace_step s0 (log w) = Some (now w, cur, None)
     \<longrightarrow> (\<exists>cur' due'.
            run_monitor pace_step s0 (log (snd (loginKimiCode fuel callbacks srv w)))
              = Some (now (snd (loginKimiCode fuel callbacks srv w)), cur', due')))"
  using login_pace [of s0 w cur None fuel callbacks srv]
  by (simp add: fst_requestDeviceToken read_device_token_def)

lemma scenario1_timers:
  "now (snd (loginKimiCode (Suc 0) callbacks0 server_fourth_poll world0)) = 1015100
   \<and> filter (\<lambda>e. case e of SetTimeout ms \<Rightarrow> True | _ \<Rightarrow> False)
        (log (snd (loginKimiCode (Suc 0) callbacks0 server_fourth_poll world0)))
      = [SetTimeout 5000, SetTimeout 5000, SetTimeout 5000]"
  by (simp add: poll_loop.simps run_defs server_fourth_poll_def callbacks0_def)

theorem pending_then_sleep_witness:
  "fst (requestDeviceToken server_fourth_poll (auth_dc1 1800 5) world0) = Return None
   \<and> run_monitor pace_step (1000000, None, None) (log world0) = Some (now world0, None, None)
   \<and> (\<exists>cur' due'.
         run_monitor pace_step (1000000, None, None)
           (log (snd (loginKimiCode (Suc 0) callbacks0 server_fourth_poll world0)))
         = Some (1015100, cur', due'))
   \<and> filter (\<lambda>e. case e of SetTimeout ms \<Rightarrow> True | _ \<Rightarrow> False)
        (log (snd (loginKimiCode (Suc 0) callbacks0 server_fourth_poll world0)))
      = [SetTimeout 5000, SetTimeout 5000, SetTimeout 5000]"
proof -
  have e: "token_endpoint server_fourth_poll (requests world0) (device_token_request (auth_dc1 1800 5))
           = Resolved 20 \<lparr>status = 400, body_text = None,
                           body_json = Some (json_error ''authorization_pending'')\<rparr>"
    by (simp add: server_fourth_poll_def reply_def world0_def)
  have l: "run_monitor pace_step (1000000, None, None) (log world0) = Some (now world0, None, None)"
    by (simp add: world0_def)
  show ?thesis
    using pending_then_sleep
            [of server_fourth_poll world0 "auth_dc1 1800 5" 20
                "\<lparr>status = 400, body_text = None,
                  body_json = Some (json_error ''authorization_pending'')\<rparr>"
                "json_error ''authorization_pending''" "(1000000, None, None)" None "Suc 0"
                callbacks0]
          e l scenario1_timers
    by (simp add: json_error_def)
qed

text \<open>
  An interval of 2147484 seconds makes a timer of 2147484000 milliseconds, more than a
  timer can hold: it fires after one millisecond, and the second poll leaves 1 ms after
  the first one was answered (the clock reads 1000061 at the end: three exchanges of 20 ms
  and one millisecond of sleep).
\<close>

theorem long_interval_counterexample:
  "interval (auth_dc1 1800 2147484) = 2147484
   \<and> max (2147484::int) 1 * 1000 = 2147484000
   \<and> timer_delay 2147484000 = 1
   \<and> loginKimiCode (Suc 0) callbacks0 server_long_interval world0
     = (Some (Return \<lparr>access = ''at1'', refresh = ''rt1'', expires = double_of_int 4600061\<rparr>),
        \<lparr>now = 1000061, requests = 3,
         log = [DeviceAuthorizationExchange device_authorization_request
                  (reply 200 (json_device ''dc1'' (Some 1800) (Some 2147484))),
                OnAuth ''https://auth.kimi.com/activate?code=ABCD-1234''
                  ''Please visit the URL to authorize. Your code: ABCD-1234'',
                TokenExchange (device_token_request (auth_dc1 1800 2147484))
                  (reply 400 (json_error ''authorization_pending'')),
                OnProgress ''Waiting for authorization...'',
                SetTimeout 2147484000,
                TokenExchange (device_token_request (auth_dc1 1800 2147484))
                  (reply 200 (json_token (Some ''at1'') (Some ''rt1'') (Some 3600)))]\<rparr>)"
  by (simp add: poll_loop.simps run_defs server_long_interval_def callbacks0_def)

section \<open>Restart on an expired device code\<close>

lemma device_code_in_request [simp]:
  "map_of (body (device_token_request auth)) ''device_code'' = Some (device_code auth)"
  by (simp add: device_token_request_def)
















text \<open>
  The monitor does reject: the expired code sent again, a code that is not in force, and a
  sleep after the code has expired.
\<close>

lemma code_step_rejects:
  "run_monitor code_step (InForce ''dc1'')
     [TokenExchange (device_token_request (auth_dc1 1800 5)) (reply 400 (json_error ''expired_token'')),
      TokenExchange (device_token_request (auth_dc1 1800 5))
        (reply 400 (json_error ''authorization_pending''))] = None"
  "run_monitor code_step (InForce ''dc2'')
     [TokenExchange (device_token_request (auth_dc1 1800 5))
        (reply 400 (json_error ''authorization_pending''))] = None"
  "run_monitor code_step (InForce ''dc1'')
     [TokenExchange (device_token_request (auth_dc1 1800 5)) (reply 400 (json_error ''expired_token'')),
      OnProgress ''Device code expired, restarting...'',
      SetTimeout 5000] = None"
  by (simp_all add: read_device_token_def reply_def json_error_def json_empty_def auth_dc1_def)




end
